theory Spec2Isabelle
  imports Complex_Main
begin

section \<open>Wire values on the controller side\<close>

text \<open>
  The controller is TypeScript. A value that crossed the wire is what \<open>JSON.parse\<close>
  returns: null, a boolean, a number, a string, an array or a plain object. Numbers are
  modelled as exact rationals (rounding of doubles is not part of the model). An object is
  an association list of its own properties, in insertion order with distinct keys; reading
  an own property that is absent gives \<open>None\<close> (JavaScript's \<open>undefined\<close>). A plain
  object also inherits the members of \<open>Object.prototype\<close>; the lookups in the parameter
  tables find them, and they are modelled there. One thing is left out: JavaScript
  enumerates the keys that are array indices before the others.
\<close>

datatype json =
    JNull
  | JBool bool
  | JNum rat
  | JStr string
  | JArr "json list"
  | JObj "(string \<times> json) list"

text \<open>The own property \<open>key\<close> of an object.\<close>

definition own_prop :: "(string \<times> 'a) list \<Rightarrow> string \<Rightarrow> 'a option" where
  "own_prop kvs k = map_of kvs k"

text \<open>\<open>result[key] = v\<close>: an existing key keeps its place, a new key goes last.\<close>

fun obj_set :: "(string \<times> 'a) list \<Rightarrow> string \<Rightarrow> 'a \<Rightarrow> (string \<times> 'a) list" where
  "obj_set [] k v = [(k, v)]"
| "obj_set ((k', v') # rest) k v =
     (if k' = k then (k, v) # rest else (k', v') # obj_set rest k v)"

text \<open>
  \<open>result[key] = v\<close> on a plain object made by \<open>{}\<close>. The key \<open>__proto__\<close> is the
  accessor inherited from \<open>Object.prototype\<close>: assigning to it makes no own property (its
  setter replaces the prototype when the value is an object or null and does nothing
  otherwise).
\<close>

definition prop_assign :: "(string \<times> 'a) list \<Rightarrow> string \<Rightarrow> 'a \<Rightarrow> (string \<times> 'a) list" where
  "prop_assign obj k v = (if k = ''__proto__'' then obj else obj_set obj k v)"

text \<open>\<open>String(n)\<close> for a non-negative integer: its decimal digits.\<close>

definition digit_char :: "nat \<Rightarrow> char" where
  "digit_char d = char_of (48 + d)"

fun String_nat :: "nat \<Rightarrow> string" where
  "String_nat n = (if n < 10 then [digit_char n] else String_nat (n div 10) @ [digit_char (n mod 10)])"

declare String_nat.simps [simp del]


section \<open>Parameter normalizer (utils/parameters.ts)\<close>

definition parameterMappings :: "(string \<times> string) list" where
  "parameterMappings =
    [(''project_path'', ''projectPath''),
     (''scene_path'', ''scenePath''),
     (''root_node_type'', ''rootNodeType''),
     (''parent_node_path'', ''parentNodePath''),
     (''node_type'', ''nodeType''),
     (''node_name'', ''nodeName''),
     (''texture_path'', ''texturePath''),
     (''node_path'', ''nodePath''),
     (''output_path'', ''outputPath''),
     (''mesh_item_names'', ''meshItemNames''),
     (''new_path'', ''newPath''),
     (''file_path'', ''filePath''),
     (''directory'', ''directory''),
     (''recursive'', ''recursive''),
     (''scene'', ''scene''),
     (''event_type'', ''eventType''),
     (''key_code'', ''keyCode''),
     (''root_path'', ''rootPath''),
     (''include_properties'', ''includeProperties''),
     (''test_script'', ''testScript''),
     (''test_name'', ''testName''),
     (''test_dir'', ''testDir''),
     (''include_subdirs'', ''includeSubdirs''),
     (''xml_output'', ''xmlOutput'')]"

text \<open>
  \<open>for (const [snakeCase, camelCase] of Object.entries(parameterMappings))
  reverseParameterMappings[camelCase] = snakeCase\<close>
\<close>

fun reverse_loop :: "(string \<times> string) list \<Rightarrow> (string \<times> string) list \<Rightarrow> (string \<times> string) list" where
  "reverse_loop [] acc = acc"
| "reverse_loop ((snakeCase, camelCase) # rest) acc = reverse_loop rest (prop_assign acc camelCase snakeCase)"

definition reverseParameterMappings :: "(string \<times> string) list" where
  "reverseParameterMappings = reverse_loop parameterMappings []"

text \<open>
  \<open>table[key]\<close> on one of the two tables. Both are plain objects whose own values are
  strings, so the lookup yields the own string, or else what \<open>Object.prototype\<close> has under
  that name: one of its eleven functions (\<open>constructor\<close> is the function \<open>Object\<close>, the
  others are named like their key), or, for \<open>__proto__\<close>, \<open>Object.prototype\<close> itself;
  for any other key it yields \<open>undefined\<close>.
\<close>

definition Object_prototype_functions :: "string list" where
  "Object_prototype_functions =
     [''constructor'', ''__defineGetter__'', ''__defineSetter__'', ''hasOwnProperty'',
      ''__lookupGetter__'', ''__lookupSetter__'', ''isPrototypeOf'', ''propertyIsEnumerable'',
      ''toString'', ''valueOf'', ''toLocaleString'']"

datatype lookup = Own string | Builtin_function string | Object_prototype | Undefined

definition table_get :: "(string \<times> string) list \<Rightarrow> string \<Rightarrow> lookup" where
  "table_get table key =
     (case own_prop table key of
        Some s \<Rightarrow> Own s
      | None \<Rightarrow>
          if key = ''__proto__'' then Object_prototype
          else if key \<in> set Object_prototype_functions
          then Builtin_function (if key = ''constructor'' then ''Object'' else key)
          else Undefined)"

text \<open>The keys that a lookup finds in \<open>Object.prototype\<close>.\<close>

definition inherited_name :: "string \<Rightarrow> bool" where
  "inherited_name key = (key = ''__proto__'' \<or> key \<in> set Object_prototype_functions)"

text \<open>
  Truthiness of what was looked up: a string is truthy when it is not empty, a function and
  an object always, \<open>undefined\<close> never.
\<close>

definition truthy_lookup :: "lookup \<Rightarrow> bool" where
  "truthy_lookup e = (case e of Own s \<Rightarrow> s \<noteq> [] | Undefined \<Rightarrow> False | _ \<Rightarrow> True)"

text \<open>
  A value used as a property key (\<open>result[k] = ...\<close>) is converted to a string: a string is
  itself, a built-in function gives \<open>function name() { [native code] }\<close>, an object gives
  \<open>[object Object]\<close>.
\<close>

definition property_key :: "lookup \<Rightarrow> string" where
  "property_key e =
     (case e of
        Own s \<Rightarrow> s
      | Builtin_function name \<Rightarrow> ''function '' @ name @ ''() { [native code] }''
      | Object_prototype \<Rightarrow> ''[object Object]''
      | Undefined \<Rightarrow> ''undefined'')"

text \<open>
  \<open>let normalizedKey = key;
  if (key.includes('_') && parameterMappings[key]) normalizedKey = parameterMappings[key];\<close>
  The definition gives the property key under which \<open>result[normalizedKey] = ...\<close> stores.
\<close>

definition normalizedKey :: "string \<Rightarrow> string" where
  "normalizedKey key =
     (if CHR ''_'' \<in> set key \<and> truthy_lookup (table_get parameterMappings key)
      then property_key (table_get parameterMappings key) else key)"

text \<open>The regular expression \<open>/[A-Z]/\<close> and \<open>letter.toLowerCase()\<close> on such a letter.\<close>

definition is_upper :: "char \<Rightarrow> bool" where
  "is_upper c = (65 \<le> (of_char c :: nat) \<and> (of_char c :: nat) \<le> 90)"

definition toLowerCase_letter :: "char \<Rightarrow> char" where
  "toLowerCase_letter c = char_of ((of_char c :: nat) + 32)"

text \<open>\<open>key.replace(/[A-Z]/g, letter => `_${letter.toLowerCase()}`)\<close>\<close>

fun replace_capitals :: "string \<Rightarrow> string" where
  "replace_capitals [] = []"
| "replace_capitals (c # cs) =
     (if is_upper c then CHR ''_'' # toLowerCase_letter c # replace_capitals cs
      else c # replace_capitals cs)"

text \<open>
  \<open>const snakeKey = reverseParameterMappings[key] || key.replace(...)\<close>, as the property
  key under which \<open>result[snakeKey] = ...\<close> stores.
\<close>

definition snakeKey :: "string \<Rightarrow> string" where
  "snakeKey key =
     (if truthy_lookup (table_get reverseParameterMappings key)
      then property_key (table_get reverseParameterMappings key) else replace_capitals key)"

text \<open>
  \<open>normalizeParameters\<close>: anything falsy or not of type object is returned as it is. The
  \<open>for ... in\<close> loop visits the own keys; over an array these are the indices, and the
  result is a plain object in every case. A value is recursed into when it is an object,
  not null and not an array.
\<close>

fun normalizeParameters :: "json \<Rightarrow> json"
  and normalize_entries :: "(string \<times> json) list \<Rightarrow> (string \<times> json) list \<Rightarrow> (string \<times> json) list"
  and normalize_items :: "nat \<Rightarrow> json list \<Rightarrow> (string \<times> json) list \<Rightarrow> (string \<times> json) list"
where
  "normalizeParameters (JObj kvs) = JObj (normalize_entries kvs [])"
| "normalizeParameters (JArr xs) = JObj (normalize_items 0 xs [])"
| "normalizeParameters JNull = JNull"
| "normalizeParameters (JBool b) = JBool b"
| "normalizeParameters (JNum n) = JNum n"
| "normalizeParameters (JStr s) = JStr s"
| "normalize_entries [] result = result"
| "normalize_entries ((key, v) # rest) result =
     normalize_entries rest
       (prop_assign result (normalizedKey key)
          (case v of JObj kvs' \<Rightarrow> normalizeParameters (JObj kvs') | _ \<Rightarrow> v))"
| "normalize_items i [] result = result"
| "normalize_items i (v # rest) result =
     normalize_items (Suc i) rest
       (prop_assign result (normalizedKey (String_nat i))
          (case v of JObj kvs' \<Rightarrow> normalizeParameters (JObj kvs') | _ \<Rightarrow> v))"

text \<open>
  \<open>convertCamelToSnakeCase\<close> has no guard of its own: \<open>for ... in\<close> over null, a boolean
  or a number visits nothing, over a string it visits the character positions.
\<close>

fun snake_chars :: "nat \<Rightarrow> string \<Rightarrow> (string \<times> json) list \<Rightarrow> (string \<times> json) list" where
  "snake_chars i [] result = result"
| "snake_chars i (c # rest) result =
     snake_chars (Suc i) rest (prop_assign result (snakeKey (String_nat i)) (JStr [c]))"

fun convertCamelToSnakeCase :: "json \<Rightarrow> json"
  and snake_entries :: "(string \<times> json) list \<Rightarrow> (string \<times> json) list \<Rightarrow> (string \<times> json) list"
  and snake_items :: "nat \<Rightarrow> json list \<Rightarrow> (string \<times> json) list \<Rightarrow> (string \<times> json) list"
where
  "convertCamelToSnakeCase (JObj kvs) = JObj (snake_entries kvs [])"
| "convertCamelToSnakeCase (JArr xs) = JObj (snake_items 0 xs [])"
| "convertCamelToSnakeCase (JStr s) = JObj (snake_chars 0 s [])"
| "convertCamelToSnakeCase JNull = JObj []"
| "convertCamelToSnakeCase (JBool b) = JObj []"
| "convertCamelToSnakeCase (JNum n) = JObj []"
| "snake_entries [] result = result"
| "snake_entries ((key, v) # rest) result =
     snake_entries rest
       (prop_assign result (snakeKey key)
          (case v of JObj kvs' \<Rightarrow> convertCamelToSnakeCase (JObj kvs') | _ \<Rightarrow> v))"
| "snake_items i [] result = result"
| "snake_items i (v # rest) result =
     snake_items (Suc i) rest
       (prop_assign result (snakeKey (String_nat i))
          (case v of JObj kvs' \<Rightarrow> convertCamelToSnakeCase (JObj kvs') | _ \<Rightarrow> v))"


section \<open>Typed-value helpers on the controller (utils/godot-types.ts)\<close>

definition KNOWN_TYPES :: "string list" where
  "KNOWN_TYPES =
    [''Vector2'', ''Vector2i'', ''Vector3'', ''Vector3i'',
     ''Color'', ''Rect2'', ''NodePath'', ''Resource'',
     ''RectangleShape2D'', ''CircleShape2D'', ''CapsuleShape2D'',
     ''WorldBoundaryShape2D'', ''SegmentShape2D'', ''ConvexPolygonShape2D'']"

text \<open>\<open>typeof v === 'number'\<close> and \<open>typeof v === 'string'\<close> on a property that may be absent.\<close>

fun is_number :: "json option \<Rightarrow> bool" where
  "is_number (Some (JNum n)) = True"
| "is_number _ = False"

definition isTypedValue :: "json \<Rightarrow> bool" where
  "isTypedValue v =
     (case v of
        JObj kvs \<Rightarrow> (case own_prop kvs ''_type'' of
                       Some (JStr t) \<Rightarrow> t \<in> set KNOWN_TYPES
                     | _ \<Rightarrow> False)
      | _ \<Rightarrow> False)"

text \<open>
  \<open>typeof value === 'object' && value !== null && !Array.isArray(value)\<close> holds of plain
  objects only; \<open>'z' in value\<close> asks whether the key is there.
\<close>

definition looksLikeVector2 :: "json \<Rightarrow> bool" where
  "looksLikeVector2 v =
     (case v of
        JObj kvs \<Rightarrow>
          is_number (own_prop kvs ''x'') \<and> is_number (own_prop kvs ''y'') \<and>
          own_prop kvs ''z'' = None \<and> own_prop kvs ''_type'' = None
      | _ \<Rightarrow> False)"

definition autoDetectVector2 :: "json \<Rightarrow> json" where
  "autoDetectVector2 v =
     (if looksLikeVector2 v then
        (case v of
           JObj kvs \<Rightarrow>
             JObj [(''_type'', JStr ''Vector2''),
                   (''x'', the (own_prop kvs ''x'')), (''y'', the (own_prop kvs ''y''))]
         | _ \<Rightarrow> v)
      else v)"


section \<open>Bridge client (bridge/bridge-client.ts)\<close>

text \<open>
  The client is a class with mutable fields, driven by the event loop: each method call and
  each socket or timer callback runs to completion and is one function from client state to
  client state. Promises, sockets and timers are objects of the runtime; the state holds
  them in tables indexed by handles, so that their identity is explicit.
\<close>

datatype ready_state = CONNECTING | OPEN | CLOSING | CLOSED

text \<open>
  The \<open>Error\<close> objects the client creates. \<open>Error msg\<close> carries a literal message;
  \<open>Bridge_error m\<close> is \<open>new Error(`Bridge error: ${m}`)\<close> for the value \<open>m\<close> read from
  \<open>response.error.message\<close>; \<open>Timed_out method ms\<close> is
  \<open>new Error(`Bridge request '${method}' timed out after ${ms}ms`)\<close>; \<open>Connect_timed_out\<close>
  and \<open>Cannot_connect\<close> are the two connection errors, whose text names the endpoint;
  \<open>TypeError\<close> is what \<open>this.ws!.send\<close> throws when \<open>this.ws\<close> is null.
\<close>

datatype js_error =
    Error string
  | Bridge_error "json option"
  | Timed_out string nat
  | Connect_timed_out
  | Cannot_connect
  | TypeError

datatype promise = Pending | Fulfilled "json option" | Rejected js_error

text \<open>The entry of \<open>pendingRequests\<close>: the promise that \<open>resolve\<close> and \<open>reject\<close> settle, and the timer.\<close>

record pending_entry =
  settles :: nat
  timer :: nat

text \<open>What a timer does when it fires.\<close>

datatype timer_action =
    Request_deadline string nat string nat
  | Connect_deadline nat

text \<open>A socket made by \<open>connect()\<close>, with the promise and the timer its callbacks close over.\<close>

record socket =
  readyState :: ready_state
  attempt :: nat
  deadline :: nat

record request_call =
  returned :: nat
  call_method :: string
  call_params :: "json option"
  call_timeoutMs :: nat

record client =
  ws :: "nat option"
  requestId :: nat
  pendingRequests :: "(string \<times> pending_entry) list"
  connectPromise :: "nat option"
  promises :: "nat \<Rightarrow> promise"
  next_promise :: nat
  sockets :: "nat \<Rightarrow> socket"
  next_socket :: nat
  timers :: "(nat \<times> timer_action) list"
  next_timer :: nat
  awaiting_connect :: "(nat \<times> request_call) list"
  sent :: "(nat \<times> json) list"

definition new_client :: client where
  "new_client =
     \<lparr> ws = None, requestId = 0, pendingRequests = [], connectPromise = None,
       promises = (\<lambda>_. Pending), next_promise = 0,
       sockets = (\<lambda>_. \<lparr> readyState = CLOSED, attempt = 0, deadline = 0 \<rparr>), next_socket = 0,
       timers = [], next_timer = 0, awaiting_connect = [], sent = [] \<rparr>"

definition isConnected :: "client \<Rightarrow> bool" where
  "isConnected st = (case ws st of None \<Rightarrow> False | Some s \<Rightarrow> readyState (sockets st s) = OPEN)"

text \<open>\<open>Map.prototype.delete\<close> and \<open>clearTimeout\<close>.\<close>

definition map_delete :: "(string \<times> 'a) list \<Rightarrow> string \<Rightarrow> (string \<times> 'a) list" where
  "map_delete m k = filter (\<lambda>e. fst e \<noteq> k) m"

definition clearTimeout :: "client \<Rightarrow> nat \<Rightarrow> client" where
  "clearTimeout st t = st\<lparr> timers := filter (\<lambda>e. fst e \<noteq> t) (timers st) \<rparr>"

text \<open>Calling \<open>resolve\<close> or \<open>reject\<close> of a promise that is already settled does nothing.\<close>

definition settle :: "client \<Rightarrow> nat \<Rightarrow> promise \<Rightarrow> client" where
  "settle st p outcome =
     (if promises st p = Pending then st\<lparr> promises := (promises st)(p := outcome) \<rparr> else st)"

text \<open>
  The synchronous part of \<open>request\<close>, once a connection exists: take the next id, arm the
  deadline, store the entry and send the frame.
\<close>

definition request_frame :: "string \<Rightarrow> string \<Rightarrow> json option \<Rightarrow> json" where
  "request_frame rid m ps =
     JObj ([(''id'', JStr rid), (''method'', JStr m)] @
           (case ps of None \<Rightarrow> [] | Some v \<Rightarrow> [(''params'', v)]))"

definition request_send :: "client \<Rightarrow> request_call \<Rightarrow> client" where
  "request_send st c =
     (let n = requestId st + 1;
          rid = String_nat n;
          t = next_timer st;
          st1 = st\<lparr> requestId := n,
                     timers := timers st @ [(t, Request_deadline rid (returned c) (call_method c) (call_timeoutMs c))],
                     next_timer := t + 1 \<rparr>;
          st2 = st1\<lparr> pendingRequests :=
                        obj_set (pendingRequests st1) rid \<lparr> settles = returned c, timer = t \<rparr> \<rparr>
      in case ws st2 of
           None \<Rightarrow> settle st2 (returned c) (Rejected TypeError)
         | Some s \<Rightarrow> st2\<lparr> sent := sent st2 @ [(s, request_frame rid (call_method c) (call_params c))] \<rparr>)"

text \<open>
  \<open>connect()\<close>: nothing to do when connected; the attempt in flight is shared; otherwise a
  new socket, with a five-second deadline.
\<close>

definition connect :: "client \<Rightarrow> client" where
  "connect st =
     (if isConnected st then st
      else if connectPromise st \<noteq> None then st
      else
        let p = next_promise st; s = next_socket st; t = next_timer st
        in st\<lparr> connectPromise := Some p,
                promises := (promises st)(p := Pending), next_promise := p + 1,
                sockets := (sockets st)(s := \<lparr> readyState = CONNECTING, attempt = p, deadline = t \<rparr>),
                next_socket := s + 1,
                timers := timers st @ [(t, Connect_deadline s)], next_timer := t + 1 \<rparr>)"

text \<open>
  \<open>request(method, params, timeoutMs)\<close> returns a promise at once. When the client is not
  connected the call first awaits \<open>connect()\<close> and goes on when that promise settles.
\<close>

definition request :: "client \<Rightarrow> string \<Rightarrow> json option \<Rightarrow> nat \<Rightarrow> client \<times> nat" where
  "request st m ps ms =
     (let r = next_promise st;
          c = \<lparr> returned = r, call_method = m, call_params = ps, call_timeoutMs = ms \<rparr>;
          st1 = st\<lparr> promises := (promises st)(r := Pending), next_promise := r + 1 \<rparr>
      in if isConnected st1 then (request_send st1 c, r)
         else
           let st2 = connect st1
           in case connectPromise st2 of
                Some p \<Rightarrow> (st2\<lparr> awaiting_connect := awaiting_connect st2 @ [(p, c)] \<rparr>, r)
              | None \<Rightarrow> (request_send st2 c, r))"

text \<open>
  The connection promise settles: \<open>finally\<close> clears \<open>connectPromise\<close>, and every call
  that awaits this promise goes on (the promise was fulfilled) or fails with the same
  error (it was rejected). In the source these continuations are microtasks: they run once
  the callback that settled the promise has returned. Every such callback settles the
  promise as its last statement; the model runs the continuations at that point, as part of
  the callback, and so does not show the state between the two.
\<close>

fun resume_calls :: "client \<Rightarrow> promise \<Rightarrow> request_call list \<Rightarrow> client" where
  "resume_calls st outcome [] = st"
| "resume_calls st outcome (c # cs) =
     resume_calls
       (case outcome of
          Rejected e \<Rightarrow> settle st (returned c) (Rejected e)
        | _ \<Rightarrow> request_send st c)
       outcome cs"

definition settle_connect :: "client \<Rightarrow> nat \<Rightarrow> promise \<Rightarrow> client" where
  "settle_connect st p outcome =
     (if promises st p = Pending then
        let st1 = st\<lparr> promises := (promises st)(p := outcome), connectPromise := None \<rparr>;
            woken = map snd (filter (\<lambda>e. fst e = p) (awaiting_connect st1));
            st2 = st1\<lparr> awaiting_connect := filter (\<lambda>e. fst e \<noteq> p) (awaiting_connect st1) \<rparr>
        in resume_calls st2 outcome woken
      else st)"

text \<open>The callbacks of the socket \<open>s\<close>, in the order of the source.\<close>

definition on_open :: "client \<Rightarrow> nat \<Rightarrow> client" where
  "on_open st s =
     (let st0 = st\<lparr> sockets := (sockets st)(s := (sockets st s)\<lparr> readyState := OPEN \<rparr>) \<rparr>;
          st1 = clearTimeout st0 (deadline (sockets st0 s));
          st2 = st1\<lparr> ws := Some s \<rparr>
      in settle_connect st2 (attempt (sockets st2 s)) (Fulfilled None))"

text \<open>Property access \<open>v.name\<close> on a parsed value, and JavaScript's truthiness.\<close>

definition member :: "json \<Rightarrow> string \<Rightarrow> json option" where
  "member v name = (case v of JObj kvs \<Rightarrow> own_prop kvs name | _ \<Rightarrow> None)"

fun truthy :: "json option \<Rightarrow> bool" where
  "truthy None = False"
| "truthy (Some JNull) = False"
| "truthy (Some (JBool b)) = b"
| "truthy (Some (JNum n)) = (n \<noteq> 0)"
| "truthy (Some (JStr s)) = (s \<noteq> [])"
| "truthy (Some (JArr xs)) = True"
| "truthy (Some (JObj kvs)) = True"

text \<open>\<open>this.pendingRequests.get(key)\<close>: the keys of the table are strings.\<close>

definition pending_get :: "(string \<times> pending_entry) list \<Rightarrow> json option \<Rightarrow> pending_entry option" where
  "pending_get m key = (case key of Some (JStr i) \<Rightarrow> own_prop m i | _ \<Rightarrow> None)"

text \<open>\<open>this.pendingRequests.delete(key)\<close>: only a string can be a key of the table.\<close>

definition pending_delete :: "(string \<times> pending_entry) list \<Rightarrow> json option \<Rightarrow> (string \<times> pending_entry) list" where
  "pending_delete m key = (case key of Some (JStr i) \<Rightarrow> map_delete m i | _ \<Rightarrow> m)"

text \<open>
  The message callback. \<open>parse\<close> is \<open>JSON.parse\<close>, with \<open>None\<close> where it throws. Reading
  \<open>response.id\<close> of null throws as well; both are caught and logged.
\<close>

definition on_message :: "(string \<Rightarrow> json option) \<Rightarrow> client \<Rightarrow> string \<Rightarrow> client" where
  "on_message parse st data =
     (case parse data of
        None \<Rightarrow> st
      | Some JNull \<Rightarrow> st
      | Some response \<Rightarrow>
          (case pending_get (pendingRequests st) (member response ''id'') of
             None \<Rightarrow> st
           | Some pending \<Rightarrow>
               let st1 = clearTimeout st (timer pending);
                   st2 = st1\<lparr> pendingRequests :=
                                pending_delete (pendingRequests st1) (member response ''id'') \<rparr>
               in if truthy (member response ''error'')
                  then settle st2 (settles pending)
                         (Rejected (Bridge_error
                            (case member response ''error'' of
                               Some e \<Rightarrow> member e ''message'' | None \<Rightarrow> None)))
                  else settle st2 (settles pending) (Fulfilled (member response ''result''))))"

text \<open>The close callback: \<open>this.ws = null\<close>, every pending call rejected, the table cleared.\<close>

fun reject_all :: "client \<Rightarrow> (string \<times> pending_entry) list \<Rightarrow> client" where
  "reject_all st [] = st"
| "reject_all st ((rid, pending) # rest) =
     reject_all
       (settle (clearTimeout st (timer pending)) (settles pending)
          (Rejected (Error ''Bridge connection closed'')))
       rest"

definition on_close :: "client \<Rightarrow> nat \<Rightarrow> client" where
  "on_close st s =
     (let st0 = st\<lparr> sockets := (sockets st)(s := (sockets st s)\<lparr> readyState := CLOSED \<rparr>) \<rparr>;
          st1 = st0\<lparr> ws := None \<rparr>;
          st2 = reject_all st1 (pendingRequests st1)
      in st2\<lparr> pendingRequests := [] \<rparr>)"

definition on_error :: "client \<Rightarrow> nat \<Rightarrow> client" where
  "on_error st s =
     (let st1 = clearTimeout st (deadline (sockets st s));
          st2 = st1\<lparr> ws := None \<rparr>
      in settle_connect st2 (attempt (sockets st2 s)) (Rejected Cannot_connect))"

text \<open>
  A timer fires: it leaves the timer table and runs its callback. The request deadline
  deletes the entry and rejects; the connection deadline closes the socket and rejects.
\<close>

definition own_timer :: "(nat \<times> timer_action) list \<Rightarrow> nat \<Rightarrow> timer_action option" where
  "own_timer ts t = map_of ts t"

definition on_timer :: "client \<Rightarrow> nat \<Rightarrow> client" where
  "on_timer st t =
     (case own_timer (timers st) t of
        None \<Rightarrow> st
      | Some act \<Rightarrow>
          let st1 = clearTimeout st t
          in case act of
               Request_deadline rid p m ms \<Rightarrow>
                 settle (st1\<lparr> pendingRequests := map_delete (pendingRequests st1) rid \<rparr>) p
                   (Rejected (Timed_out m ms))
             | Connect_deadline s \<Rightarrow>
                 settle_connect
                   (st1\<lparr> sockets := (sockets st1)(s := (sockets st1 s)\<lparr> readyState := CLOSING \<rparr>) \<rparr>)
                   (attempt (sockets st1 s)) (Rejected Connect_timed_out))"

definition disconnect :: "client \<Rightarrow> client" where
  "disconnect st =
     (case ws st of
        None \<Rightarrow> st
      | Some s \<Rightarrow> st\<lparr> sockets := (sockets st)(s := (sockets st s)\<lparr> readyState := CLOSING \<rparr>), ws := None \<rparr>)"

text \<open>
  Scenarios: a client that has connected, with two and with three calls in flight.
\<close>

definition connected_client :: client where
  "connected_client = on_open (connect new_client) 0"

definition two_calls :: client where
  "two_calls =
     fst (request (fst (request connected_client ''ping'' None 30000)) ''get_scene_tree'' None 30000)"

definition three_calls :: client where
  "three_calls = fst (request two_calls ''capture_screenshot'' None 30000)"

section \<open>Values on the target side (GDScript)\<close>

text \<open>
  The target is a Godot script. Its values are Variants: what \<open>JSON.parse\<close> yields there
  (null, booleans, numbers, strings, arrays, dictionaries with string keys) and the engine's
  structured values. A \<open>float\<close> of the script is a rational and an \<open>int\<close> an integer of
  the 64-bit range (rounding to a double is not part of the model). The components of
  \<open>Vector2\<close>, \<open>Vector3\<close>, \<open>Rect2\<close> and \<open>Color\<close> are 32-bit floats and those of
  \<open>Vector2i\<close> and \<open>Vector3i\<close> 32-bit integers: the constructors below narrow what they
  are given, and a value of these types holds narrowed numbers only. A signal
  is known by a handle. \<open>VResource p\<close> is the resource whose \<open>resource_path\<close> is \<open>p\<close>.
  \<open>VObject c ps\<close> is an object made by \<open>c.new()\<close> to which the script then assigned the
  properties \<open>ps\<close>, in that order; what the engine's setters make of an assignment is not
  part of the model. \<open>VPackedVector2Array\<close> holds the values appended to it.
\<close>

datatype variant =
    VNil
  | VBool bool
  | VInt int
  | VFloat rat
  | VString string
  | VArray "variant list"
  | VDictionary "(string \<times> variant) list"
  | VVector2 rat rat
  | VVector2i int int
  | VVector3 rat rat rat
  | VVector3i int int int
  | VColor rat rat rat rat
  | VRect2 rat rat rat rat
  | VNodePath string
  | VResource string
  | VObject string "(string \<times> variant) list"
  | VPackedVector2Array "variant list"
  | VSignal nat

text \<open>
  A script error stops the running function; nothing after it is executed. GDScript has no
  exceptions to catch, so the error is a result of its own. The caller of the stopped
  function goes on: the call has the value null there.
\<close>

datatype script_error =
    Invalid_assignment string
  | Invalid_operands string
  | Invalid_argument string
  | Unmodelled string

definition received :: "script_error + variant \<Rightarrow> variant" where
  "received r = (case r of Inl e \<Rightarrow> VNil | Inr v \<Rightarrow> v)"

text \<open>
  \<open>Unmodelled\<close> is not an error of the script: it marks a conversion of the engine that
  the model leaves out. About a call that ends so the model says nothing, and nothing
  either about what its caller receives.
\<close>

definition modelled :: "script_error + variant \<Rightarrow> bool" where
  "modelled r = (case r of Inl (Unmodelled s) \<Rightarrow> False | _ \<Rightarrow> True)"

text \<open>\<open>d.has(key)\<close> and \<open>d.get(key, default)\<close>.\<close>

definition dict_has :: "(string \<times> variant) list \<Rightarrow> string \<Rightarrow> bool" where
  "dict_has d key = (map_of d key \<noteq> None)"

definition dict_get :: "(string \<times> variant) list \<Rightarrow> string \<Rightarrow> variant \<Rightarrow> variant" where
  "dict_get d key dflt = (case map_of d key of None \<Rightarrow> dflt | Some v \<Rightarrow> v)"

text \<open>
  A number given where the engine wants a \<open>float\<close>: an \<open>int\<close> is converted, anything that
  is not a number is refused.
\<close>

definition as_float :: "variant \<Rightarrow> script_error + rat" where
  "as_float v =
     (case v of
        VFloat r \<Rightarrow> Inr r
      | VInt i \<Rightarrow> Inr (of_int i)
      | _ \<Rightarrow> Inl (Invalid_argument ''float expected''))"

text \<open>
  Narrowing to a 32-bit float, as the engine's vector, rectangle and colour types store
  their components (\<open>real_t\<close> of a standard build, \<open>float\<close> in \<open>Color\<close>). The finite
  32-bit floats are the numbers \<open>m * 2 ^ (e - 23)\<close> with \<open>\<bar>m\<bar> < 2 ^ 24\<close> and
  \<open>- 126 \<le> e \<le> 127\<close>; a number is rounded to the nearest of them, a tie to the one with
  even \<open>m\<close>. What rounds to \<open>2 ^ 128\<close> or beyond is an infinity in the engine; the numbers
  of the model have none, and \<open>float32\<close> gives \<open>None\<close> there.
\<close>

definition pow2 :: "int \<Rightarrow> rat" where
  "pow2 e = (if 0 \<le> e then 2 ^ nat e else 1 / 2 ^ nat (- e))"

text \<open>The number of binary digits of a positive integer.\<close>

function bit_length :: "int \<Rightarrow> int" where
  "bit_length n = (if n \<le> 0 then 0 else 1 + bit_length (n div 2))"
  by pat_completeness auto

termination
  by (relation "measure nat") auto

declare bit_length.simps [simp del]

text \<open>For \<open>a > 0\<close>, the exponent \<open>e\<close> with \<open>2 ^ e \<le> a < 2 ^ (e + 1)\<close>.\<close>

definition binary_exponent :: "rat \<Rightarrow> int" where
  "binary_exponent a =
     (let (p, q) = quotient_of a;
          k = bit_length p - bit_length q
      in if pow2 k \<le> a then k else k - 1)"

definition round_half_even :: "rat \<Rightarrow> int" where
  "round_half_even x =
     (let f = \<lfloor>x\<rfloor>; d = x - of_int f
      in if d < 1 / 2 then f else if 1 / 2 < d then f + 1 else if even f then f else f + 1)"

definition float32 :: "rat \<Rightarrow> rat option" where
  "float32 r =
     (if r = 0 then Some 0
      else let a = \<bar>r\<bar>;
               e = max (binary_exponent a) (- 126);
               q = pow2 (e - 23);
               x = of_int (round_half_even (a / q)) * q
           in if pow2 128 \<le> x then None else Some (if r < 0 then - x else x))"

text \<open>A number given to a constructor that stores it as a 32-bit float.\<close>

definition as_real_t :: "variant \<Rightarrow> script_error + rat" where
  "as_real_t v =
     (case as_float v of
        Inl e \<Rightarrow> Inl e
      | Inr r \<Rightarrow>
          (case float32 r of
             None \<Rightarrow> Inl (Unmodelled ''a number beyond the finite 32-bit floats'')
           | Some x \<Rightarrow> Inr x))"

text \<open>
  \<open>int(v)\<close> yields a 64-bit integer: a \<open>float\<close> is truncated towards zero (what the
  engine makes of a \<open>float\<close> beyond the 64-bit range is left out of the model, and so is
  its parsing of a string). \<open>Vector2i\<close> and \<open>Vector3i\<close> keep the low 32 bits of the
  integers they are given.
\<close>

definition towards_zero :: "rat \<Rightarrow> int" where
  "towards_zero r = (if 0 \<le> r then \<lfloor>r\<rfloor> else \<lceil>r\<rceil>)"

definition int64 :: "int \<Rightarrow> int" where
  "int64 i = signed_take_bit 63 i"

definition int32 :: "int \<Rightarrow> int" where
  "int32 i = signed_take_bit 31 i"

definition int_of :: "variant \<Rightarrow> script_error + int" where
  "int_of v =
     (case v of
        VInt i \<Rightarrow> Inr (int64 i)
      | VFloat r \<Rightarrow>
          if - (2 ^ 63) \<le> towards_zero r \<and> towards_zero r < 2 ^ 63 then Inr (towards_zero r)
          else Inl (Unmodelled ''int() of a float beyond the 64-bit range'')
      | VBool b \<Rightarrow> Inr (if b then 1 else 0)
      | VString s \<Rightarrow> Inl (Unmodelled ''int(String)'')
      | _ \<Rightarrow> Inl (Invalid_argument ''int()''))"

text \<open>A value declared \<open>String\<close>: assigning anything else is an error.\<close>

definition as_String :: "variant \<Rightarrow> script_error + string" where
  "as_String v =
     (case v of
        VString s \<Rightarrow> Inr s
      | _ \<Rightarrow> Inl (Invalid_assignment ''String expected''))"

text \<open>
  The constructors of the engine's value types: each stores its arguments narrowed to the
  type of its components.
\<close>

definition Vector2 :: "variant \<Rightarrow> variant \<Rightarrow> script_error + variant" where
  "Vector2 a b =
     (case as_real_t a of Inl e \<Rightarrow> Inl e | Inr x \<Rightarrow>
      case as_real_t b of Inl e \<Rightarrow> Inl e | Inr y \<Rightarrow> Inr (VVector2 x y))"

definition Vector2i :: "script_error + int \<Rightarrow> script_error + int \<Rightarrow> script_error + variant" where
  "Vector2i a b =
     (case a of Inl e \<Rightarrow> Inl e | Inr x \<Rightarrow>
      case b of Inl e \<Rightarrow> Inl e | Inr y \<Rightarrow> Inr (VVector2i (int32 x) (int32 y)))"

definition Vector3 :: "variant \<Rightarrow> variant \<Rightarrow> variant \<Rightarrow> script_error + variant" where
  "Vector3 a b c =
     (case as_real_t a of Inl e \<Rightarrow> Inl e | Inr x \<Rightarrow>
      case as_real_t b of Inl e \<Rightarrow> Inl e | Inr y \<Rightarrow>
      case as_real_t c of Inl e \<Rightarrow> Inl e | Inr z \<Rightarrow> Inr (VVector3 x y z))"

definition Vector3i ::
  "script_error + int \<Rightarrow> script_error + int \<Rightarrow> script_error + int \<Rightarrow> script_error + variant" where
  "Vector3i a b c =
     (case a of Inl e \<Rightarrow> Inl e | Inr x \<Rightarrow>
      case b of Inl e \<Rightarrow> Inl e | Inr y \<Rightarrow>
      case c of Inl e \<Rightarrow> Inl e | Inr z \<Rightarrow> Inr (VVector3i (int32 x) (int32 y) (int32 z)))"

definition Color :: "variant \<Rightarrow> variant \<Rightarrow> variant \<Rightarrow> variant \<Rightarrow> script_error + variant" where
  "Color r g b a =
     (case as_real_t r of Inl e \<Rightarrow> Inl e | Inr r' \<Rightarrow>
      case as_real_t g of Inl e \<Rightarrow> Inl e | Inr g' \<Rightarrow>
      case as_real_t b of Inl e \<Rightarrow> Inl e | Inr b' \<Rightarrow>
      case as_real_t a of Inl e \<Rightarrow> Inl e | Inr a' \<Rightarrow> Inr (VColor r' g' b' a'))"

definition Rect2 :: "variant \<Rightarrow> variant \<Rightarrow> variant \<Rightarrow> variant \<Rightarrow> script_error + variant" where
  "Rect2 x y w h =
     (case as_real_t x of Inl e \<Rightarrow> Inl e | Inr x' \<Rightarrow>
      case as_real_t y of Inl e \<Rightarrow> Inl e | Inr y' \<Rightarrow>
      case as_real_t w of Inl e \<Rightarrow> Inl e | Inr w' \<Rightarrow>
      case as_real_t h of Inl e \<Rightarrow> Inl e | Inr h' \<Rightarrow> Inr (VRect2 x' y' w' h'))"

definition NodePath :: "variant \<Rightarrow> script_error + variant" where
  "NodePath p = (case p of VString s \<Rightarrow> Inr (VNodePath s) | VNodePath s \<Rightarrow> Inr (VNodePath s)
                 | _ \<Rightarrow> Inl (Invalid_argument ''NodePath()''))"

text \<open>
  \<open>ResourceLoader\<close> is the engine's view of the project files: which paths exist, and what
  \<open>load\<close> returns for a path.
\<close>

record resource_loader =
  exists :: "string \<Rightarrow> bool"
  load :: "string \<Rightarrow> variant"


section \<open>Typed-value decoding (convert_typed_value)\<close>

text \<open>
  The arms of the \<open>match\<close> that both scripts share, word for word, each with the defaults
  of its \<open>value.get\<close> calls.
\<close>

definition typed_Vector2 :: "(string \<times> variant) list \<Rightarrow> script_error + variant" where
  "typed_Vector2 value = Vector2 (dict_get value ''x'' (VFloat 0)) (dict_get value ''y'' (VFloat 0))"

definition typed_Vector2i :: "(string \<times> variant) list \<Rightarrow> script_error + variant" where
  "typed_Vector2i value =
     Vector2i (int_of (dict_get value ''x'' (VInt 0))) (int_of (dict_get value ''y'' (VInt 0)))"

definition typed_Vector3 :: "(string \<times> variant) list \<Rightarrow> script_error + variant" where
  "typed_Vector3 value =
     Vector3 (dict_get value ''x'' (VFloat 0)) (dict_get value ''y'' (VFloat 0))
       (dict_get value ''z'' (VFloat 0))"

definition typed_Vector3i :: "(string \<times> variant) list \<Rightarrow> script_error + variant" where
  "typed_Vector3i value =
     Vector3i (int_of (dict_get value ''x'' (VInt 0))) (int_of (dict_get value ''y'' (VInt 0)))
       (int_of (dict_get value ''z'' (VInt 0)))"

definition typed_Color :: "(string \<times> variant) list \<Rightarrow> script_error + variant" where
  "typed_Color value =
     Color (dict_get value ''r'' (VFloat 0)) (dict_get value ''g'' (VFloat 0))
       (dict_get value ''b'' (VFloat 0)) (dict_get value ''a'' (VFloat 1))"

definition typed_Rect2 :: "(string \<times> variant) list \<Rightarrow> script_error + variant" where
  "typed_Rect2 value =
     Rect2 (dict_get value ''x'' (VFloat 0)) (dict_get value ''y'' (VFloat 0))
       (dict_get value ''w'' (VFloat 0)) (dict_get value ''h'' (VFloat 0))"

definition typed_NodePath :: "(string \<times> variant) list \<Rightarrow> script_error + variant" where
  "typed_NodePath value = NodePath (dict_get value ''path'' (VString ''''))"

text \<open>
  \<open>var res_path = value.get("path", "");
  if res_path != "" and ResourceLoader.exists(res_path): return load(res_path);
  return null\<close>. A path that is not a string is refused (by \<open>ResourceLoader.exists\<close> in the
  offline script, by the declaration \<open>var res_path: String\<close> in the live one).
\<close>

definition typed_Resource :: "resource_loader \<Rightarrow> (string \<times> variant) list \<Rightarrow> script_error + variant" where
  "typed_Resource rl value =
     (case as_String (dict_get value ''path'' (VString '''')) of
        Inl e \<Rightarrow> Inl e
      | Inr res_path \<Rightarrow>
          if res_path \<noteq> '''' \<and> exists rl res_path then Inr (load rl res_path) else Inr VNil)"

text \<open>A value stored in a dictionary is smaller than the dictionary (for termination).\<close>

lemma size_map_of:
  "map_of kvs k = Some v \<Longrightarrow> size v < size_list (size_prod (\<lambda>_. 0) size) kvs"
  by (induction kvs) (auto split: if_splits)

text \<open>
  The offline script (\<open>godot_operations.gd\<close>). The discriminator is read into an untyped
  variable; in the last arm it is appended to a string by \<open>+\<close>, which is an error unless it
  is a string itself. The arguments of a call are evaluated before the call, so this does
  not depend on whether debug logging is on. The result of the function is \<open>Inl\<close> when the
  call was stopped by an error. A recursive call is an ordinary call: when it is stopped,
  the loop or the assignment that made it goes on with null. An assignment to a property of
  a shape is recorded as it is written; whether the engine's setter accepts the value
  assigned (null among them) is not part of the model.
\<close>

function convert_typed_value :: "resource_loader \<Rightarrow> variant \<Rightarrow> script_error + variant"
  and convert_fields ::
    "resource_loader \<Rightarrow> (string \<times> variant) list \<Rightarrow> (string \<times> variant) list
       \<Rightarrow> (string \<times> variant) list"
  and convert_points ::
    "resource_loader \<Rightarrow> variant list \<Rightarrow> variant list \<Rightarrow> variant list"
where
  "convert_typed_value rl v =
     (case v of
        VDictionary value \<Rightarrow>
          (case map_of value ''_type'' of
             None \<Rightarrow> Inr (VDictionary (convert_fields rl value []))
           | Some (VString t) \<Rightarrow>
               if t = ''Vector2'' then typed_Vector2 value
               else if t = ''Vector2i'' then typed_Vector2i value
               else if t = ''Vector3'' then typed_Vector3 value
               else if t = ''Vector3i'' then typed_Vector3i value
               else if t = ''Color'' then typed_Color value
               else if t = ''Rect2'' then typed_Rect2 value
               else if t = ''NodePath'' then typed_NodePath value
               else if t = ''Resource'' then typed_Resource rl value
               else if t = ''RectangleShape2D'' then
                 Inr (VObject ''RectangleShape2D''
                       (case map_of value ''size'' of
                          None \<Rightarrow> []
                        | Some sz \<Rightarrow> [(''size'', received (convert_typed_value rl sz))]))
               else if t = ''CircleShape2D'' then
                 Inr (VObject ''CircleShape2D''
                       (case map_of value ''radius'' of None \<Rightarrow> [] | Some r \<Rightarrow> [(''radius'', r)]))
               else if t = ''CapsuleShape2D'' then
                 Inr (VObject ''CapsuleShape2D''
                       ((case map_of value ''radius'' of None \<Rightarrow> [] | Some r \<Rightarrow> [(''radius'', r)]) @
                        (case map_of value ''height'' of None \<Rightarrow> [] | Some h \<Rightarrow> [(''height'', h)])))
               else if t = ''WorldBoundaryShape2D'' then
                 Inr (VObject ''WorldBoundaryShape2D''
                       ((case map_of value ''normal'' of
                           None \<Rightarrow> []
                         | Some n \<Rightarrow> [(''normal'', received (convert_typed_value rl n))]) @
                        (case map_of value ''distance'' of None \<Rightarrow> [] | Some d \<Rightarrow> [(''distance'', d)])))
               else if t = ''SegmentShape2D'' then
                 Inr (VObject ''SegmentShape2D''
                       ((case map_of value ''a'' of
                           None \<Rightarrow> []
                         | Some a \<Rightarrow> [(''a'', received (convert_typed_value rl a))]) @
                        (case map_of value ''b'' of
                           None \<Rightarrow> []
                         | Some b \<Rightarrow> [(''b'', received (convert_typed_value rl b))])))
               else if t = ''ConvexPolygonShape2D'' then
                 (case map_of value ''points'' of
                    Some (VArray points) \<Rightarrow>
                      Inr (VObject ''ConvexPolygonShape2D''
                            [(''points'', VPackedVector2Array (convert_points rl points []))])
                  | _ \<Rightarrow> Inr (VObject ''ConvexPolygonShape2D'' []))
               else Inr (VDictionary value)
           | Some _ \<Rightarrow> Inl (Invalid_operands ''String + non-String''))
      | _ \<Rightarrow> Inr v)"
| "convert_fields rl [] result = result"
| "convert_fields rl ((key, v) # rest) result =
     convert_fields rl rest (obj_set result key (received (convert_typed_value rl v)))"
| "convert_points rl [] pts = pts"
| "convert_points rl (pt # rest) pts =
     convert_points rl rest (pts @ [received (convert_typed_value rl pt)])"
  by pat_completeness auto

termination
proof (relation "measure (\<lambda>x. case x of
          Inl (rl, v) \<Rightarrow> size v
        | Inr (Inl (rl, kvs, result)) \<Rightarrow> size_list (size_prod (\<lambda>_. 0) size) kvs
        | Inr (Inr (rl, points, pts)) \<Rightarrow> size_list size points)", goal_cases)
  case 1
  show ?case by simp
qed (auto dest: size_map_of)

declare convert_typed_value.simps(1) [simp del]

text \<open>
  The live script (\<open>level_handler.gd\<close>, \<open>_convert_typed_value\<close>). The discriminator is
  assigned to a variable declared \<open>String\<close>, which is an error unless it is a string. The
  \<open>match\<close> has the eight arms above and no arm for a shape.
\<close>

function live_convert_typed_value :: "resource_loader \<Rightarrow> variant \<Rightarrow> script_error + variant"
  and live_convert_fields ::
    "resource_loader \<Rightarrow> (string \<times> variant) list \<Rightarrow> (string \<times> variant) list
       \<Rightarrow> (string \<times> variant) list"
where
  "live_convert_typed_value rl v =
     (case v of
        VDictionary value \<Rightarrow>
          (case map_of value ''_type'' of
             None \<Rightarrow> Inr (VDictionary (live_convert_fields rl value []))
           | Some tv \<Rightarrow>
               (case as_String tv of
                  Inl e \<Rightarrow> Inl e
                | Inr t \<Rightarrow>
                    if t = ''Vector2'' then typed_Vector2 value
                    else if t = ''Vector2i'' then typed_Vector2i value
                    else if t = ''Vector3'' then typed_Vector3 value
                    else if t = ''Vector3i'' then typed_Vector3i value
                    else if t = ''Color'' then typed_Color value
                    else if t = ''Rect2'' then typed_Rect2 value
                    else if t = ''NodePath'' then typed_NodePath value
                    else if t = ''Resource'' then typed_Resource rl value
                    else Inr (VDictionary value)))
      | _ \<Rightarrow> Inr v)"
| "live_convert_fields rl [] result = result"
| "live_convert_fields rl ((key, v) # rest) result =
     live_convert_fields rl rest (obj_set result key (received (live_convert_typed_value rl v)))"
  by pat_completeness auto

termination
proof (relation "measure (\<lambda>x. case x of
          Inl (rl, v) \<Rightarrow> size v
        | Inr (rl, kvs, result) \<Rightarrow> size_list (size_prod (\<lambda>_. 0) size) kvs)", goal_cases)
  case 1
  show ?case by simp
qed auto

declare live_convert_typed_value.simps(1) [simp del]



definition is_int32 :: "int \<Rightarrow> bool" where
  "is_int32 i = (int32 i = i)"



definition SHAPE_2D_TYPES :: "string list" where
  "SHAPE_2D_TYPES =
     [''RectangleShape2D'', ''CircleShape2D'', ''CapsuleShape2D'',
      ''WorldBoundaryShape2D'', ''SegmentShape2D'', ''ConvexPolygonShape2D'']"

text \<open>A project without resource files.\<close>

definition no_files :: resource_loader where
  "no_files = \<lparr> exists = (\<lambda>_. False), load = (\<lambda>_. VNil) \<rparr>"




section \<open>Target-side dispatcher (mcp_bridge.gd)\<close>

text \<open>
  A handler is a callable of the plugin: it takes the parameters of the call, may change the
  running scene (the world \<open>'w\<close>) and returns a Variant.
\<close>

type_synonym 'w handler = "variant \<Rightarrow> 'w \<Rightarrow> variant \<times> 'w"

text \<open>
  The server: the handler registry \<open>_handlers\<close>, the world the handlers act on, the
  responses handed to \<open>peer.send_text\<close> (the dictionary that \<open>JSON.stringify\<close> renders,
  with the peer it goes to), and the calls of \<open>_handle_message\<close> that are suspended at
  \<open>await\<close>, each with its signal, peer and id.
\<close>

record 'w server =
  handlers :: "(string \<times> 'w handler) list"
  world :: 'w
  sent_text :: "(nat \<times> variant) list"
  awaiting :: "(nat \<times> nat \<times> string) list"

definition send_result :: "'w server \<Rightarrow> nat \<Rightarrow> string \<Rightarrow> variant \<Rightarrow> 'w server" where
  "send_result st peer rid result =
     st\<lparr> sent_text := sent_text st @ [(peer, VDictionary [(''id'', VString rid), (''result'', result)])] \<rparr>"

definition send_error :: "'w server \<Rightarrow> nat \<Rightarrow> string \<Rightarrow> int \<Rightarrow> string \<Rightarrow> 'w server" where
  "send_error st peer rid code message =
     st\<lparr> sent_text := sent_text st @
            [(peer, VDictionary [(''id'', VString rid),
                                 (''error'', VDictionary [(''code'', VInt code),
                                                          (''message'', VString message)])])] \<rparr>"

text \<open>
  \<open>str(v)\<close>: a string is itself; how the engine prints any other value is the parameter
  \<open>render\<close>.
\<close>

definition str :: "(variant \<Rightarrow> string) \<Rightarrow> variant \<Rightarrow> string" where
  "str render v = (case v of VString s \<Rightarrow> s | _ \<Rightarrow> render v)"

text \<open>
  What the engine prints for a \<open>float\<close> that is a whole number (and \<open>JSON.parse\<close> yields
  every number as a \<open>float\<close>): up to Godot 4.3 the digits of the number, from Godot 4.4 on
  the digits followed by \<open>.0\<close>. The controller works with both (its UID tools ask for
  4.4 or later). This is fixed here for whole numbers below \<open>10 ^ 15\<close> in magnitude; the
  text of any other value is left to \<open>other\<close>.
\<close>

datatype float_text = Digits_only | Trailing_zero

definition decimal :: "int \<Rightarrow> string" where
  "decimal i = (if i < 0 then CHR ''-'' # String_nat (nat (- i)) else String_nat (nat i))"

definition engine_render :: "float_text \<Rightarrow> (variant \<Rightarrow> string) \<Rightarrow> variant \<Rightarrow> string" where
  "engine_render style other v =
     (case v of
        VFloat r \<Rightarrow>
          if r = of_int \<lfloor>r\<rfloor> \<and> \<bar>r\<bar> < 10 ^ 15
          then decimal \<lfloor>r\<rfloor> @ (case style of Digits_only \<Rightarrow> [] | Trailing_zero \<Rightarrow> ''.0'')
          else other v
      | _ \<Rightarrow> other v)"

text \<open>
  \<open>_handle_message\<close>. \<open>parse\<close> is \<open>JSON.parse\<close> with the text of
  \<open>get_error_message()\<close> on failure. The call ends with the new server state; it ends with
  a script error as well when an assignment to a typed variable fails (\<open>var method: String\<close>,
  \<open>var deferred_signal: Signal\<close>), and then nothing more of it is executed. A call whose
  handler returned a dictionary with the key \<open>_deferred\<close> is suspended on that signal.
\<close>

definition handle_message ::
  "(string \<Rightarrow> string + variant) \<Rightarrow> (variant \<Rightarrow> string) \<Rightarrow> 'w server \<Rightarrow> nat \<Rightarrow> string
     \<Rightarrow> script_error option \<times> 'w server" where
  "handle_message parse render st peer data =
     (case parse data of
        Inl problem \<Rightarrow> (None, send_error st peer ''0'' (- 32700) (''Parse error: '' @ problem))
      | Inr (VDictionary msg) \<Rightarrow>
          (let rid = str render (dict_get msg ''id'' (VString ''0''))
           in case as_String (dict_get msg ''method'' (VString '''')) of
                Inl e \<Rightarrow> (Some e, st)
              | Inr meth \<Rightarrow>
                  (let params = dict_get msg ''params'' (VDictionary [])
                   in if meth = '''' then (None, send_error st peer rid (- 32600) ''Missing method'')
                      else case map_of (handlers st) meth of
                             None \<Rightarrow>
                               (None, send_error st peer rid (- 32601) (''Method not found: '' @ meth))
                           | Some handler \<Rightarrow>
                               (let (result, w) = handler params (world st);
                                    st1 = st\<lparr> world := w \<rparr>
                                in case result of
                                     VDictionary r \<Rightarrow>
                                       (case map_of r ''_deferred'' of
                                          None \<Rightarrow> (None, send_result st1 peer rid result)
                                        | Some (VSignal s) \<Rightarrow>
                                            (None, st1\<lparr> awaiting := awaiting st1 @ [(s, peer, rid)] \<rparr>)
                                        | Some _ \<Rightarrow> (Some (Invalid_assignment ''Signal expected''), st1))
                                   | _ \<Rightarrow> (None, send_result st1 peer rid result))))
      | Inr _ \<Rightarrow> (None, send_error st peer ''0'' (- 32600) ''Invalid request: expected object''))"

text \<open>
  The signal \<open>s\<close> is emitted with \<open>payload\<close>: every call suspended on it goes on, in the
  order of suspension, and sends its result.
\<close>

fun resume_awaiting :: "'w server \<Rightarrow> variant \<Rightarrow> (nat \<times> nat \<times> string) list \<Rightarrow> 'w server" where
  "resume_awaiting st payload [] = st"
| "resume_awaiting st payload ((s, peer, rid) # rest) =
     resume_awaiting (send_result st peer rid payload) payload rest"

definition signal_emitted :: "'w server \<Rightarrow> nat \<Rightarrow> variant \<Rightarrow> 'w server" where
  "signal_emitted st s payload =
     resume_awaiting (st\<lparr> awaiting := filter (\<lambda>c. fst c \<noteq> s) (awaiting st) \<rparr>) payload
       (filter (\<lambda>c. fst c = s) (awaiting st))"

text \<open>
  The inner loop of \<open>_process\<close> for one open peer: every packet that has arrived is handled
  in turn; a call that stopped with a script error does not end the loop.
\<close>

fun handle_packets ::
  "(string \<Rightarrow> string + variant) \<Rightarrow> (variant \<Rightarrow> string) \<Rightarrow> 'w server \<Rightarrow> nat \<Rightarrow> string list \<Rightarrow> 'w server" where
  "handle_packets parse render st peer [] = st"
| "handle_packets parse render st peer (data # rest) =
     handle_packets parse render (snd (handle_message parse render st peer data)) peer rest"

text \<open>
  What the server reacts to, over any number of ticks: a packet from a peer, and a signal
  fired by a handler's own coroutine.
\<close>

datatype event = Packet nat string | Signal_fired nat variant

fun step ::
  "(string \<Rightarrow> string + variant) \<Rightarrow> (variant \<Rightarrow> string) \<Rightarrow> 'w server \<Rightarrow> event \<Rightarrow> 'w server" where
  "step parse render st (Packet peer data) = snd (handle_message parse render st peer data)"
| "step parse render st (Signal_fired s payload) = signal_emitted st s payload"

definition run ::
  "(string \<Rightarrow> string + variant) \<Rightarrow> (variant \<Rightarrow> string) \<Rightarrow> 'w server \<Rightarrow> event list \<Rightarrow> 'w server" where
  "run parse render st events = foldl (step parse render) st events"

text \<open>\<open>_ready\<close>: the ten methods of the registry, and \<open>_handle_ping\<close>.\<close>

definition registered_methods :: "string list" where
  "registered_methods =
     [''ping'', ''capture_screenshot'', ''send_input_event'', ''send_action'', ''get_scene_tree'',
      ''get_node_properties'', ''set_node_property'', ''delete_node'', ''set_tiles'', ''reparent_node'']"

definition handle_ping :: "'w handler" where
  "handle_ping params w =
     (VDictionary [(''status'', VString ''ok''), (''server'', VString ''mechanical-turk-mcp''),
                   (''version'', VString ''0.1.0'')], w)"

definition ready :: "(string \<Rightarrow> 'w handler) \<Rightarrow> 'w \<Rightarrow> 'w server" where
  "ready callable w =
     \<lparr> handlers = map (\<lambda>name. (name, if name = ''ping'' then handle_ping else callable name))
                      registered_methods,
       world = w, sent_text = [], awaiting = [] \<rparr>"

text \<open>
  The screenshot handler (\<open>screenshot_handler.gd\<close>): \<open>handle\<close> starts the capture, which
  runs after the next frame, and returns at once the marker with its signal
  \<open>screenshot_ready\<close>.
\<close>

definition screenshot_handle :: "nat \<Rightarrow> 'w handler" where
  "screenshot_handle screenshot_ready params w = (VDictionary [(''_deferred'', VSignal screenshot_ready)], w)"


section \<open>Live scene handler (level_handler.gd)\<close>

text \<open>
  The running scene as the handler sees it: whether \<open>get_tree()\<close> gives a tree, which node
  \<open>tree.root.get_node_or_null\<close> finds for a path, the root, the values that
  \<open>node.set\<close> was called with, and the project's resource files.
\<close>

record scene =
  tree :: bool
  get_node_or_null :: "string \<Rightarrow> nat option"
  root :: nat
  assigned :: "nat \<Rightarrow> (string \<times> variant) list"
  files :: resource_loader

definition trim_prefix :: "string \<Rightarrow> string \<Rightarrow> string" where
  "trim_prefix s p = (if take (length p) s = p then drop (length p) s else s)"

definition error_result :: "string \<Rightarrow> variant" where
  "error_result message = VDictionary [(''error'', VString message)]"

text \<open>
  \<open>handle_set_property\<close>. The two path variables are declared \<open>String\<close>; the typed value
  is decoded before \<open>node.set\<close>, and when the decoder was stopped by an error the handler
  goes on with null.
\<close>

definition handle_set_property :: "variant \<Rightarrow> scene \<Rightarrow> script_error + variant \<times> scene" where
  "handle_set_property params sc =
     (case params of
        VDictionary ps \<Rightarrow>
          (case as_String (dict_get ps ''node_path'' (VString '''')) of
             Inl e \<Rightarrow> Inl e
           | Inr node_path \<Rightarrow>
          (case as_String (dict_get ps ''property'' (VString '''')) of
             Inl e \<Rightarrow> Inl e
           | Inr property \<Rightarrow>
               (let v = dict_get ps ''value'' VNil
                in if node_path = '''' \<or> property = ''''
                   then Inr (error_result ''node_path and property are required'', sc)
                   else if \<not> tree sc then Inr (error_result ''No scene tree available'', sc)
                   else
                     (case (if node_path = ''/root'' then Some (root sc)
                            else get_node_or_null sc (trim_prefix node_path ''/root'')) of
                        None \<Rightarrow> Inr (error_result (''Node not found: '' @ node_path), sc)
                      | Some node \<Rightarrow>
                          (let converted = received (live_convert_typed_value (files sc) v)
                           in Inr (VDictionary [(''status'', VString ''ok''), (''node'', VString node_path),
                                                (''property'', VString property)],
                                   sc\<lparr> assigned := (assigned sc)
                                         (node := obj_set (assigned sc node) property converted) \<rparr>))))))
      | _ \<Rightarrow> Inr (error_result ''Invalid params'', sc))"


section \<open>Input handler (input_handler.gd)\<close>

text \<open>
  \<open>handle_input_event\<close>. The event type is read into a variable declared \<open>String\<close>. The
  three kinds of event are built and given to the engine's \<open>Input\<close> by functions of their
  own, which are the parameter \<open>inject\<close> here; what this function itself decides is which
  of them runs, and the two failures it reports.
\<close>

definition status_error :: "string \<Rightarrow> variant" where
  "status_error message = VDictionary [(''status'', VString ''error''), (''message'', VString message)]"

definition handle_input_event ::
  "(string \<Rightarrow> variant \<Rightarrow> 'w \<Rightarrow> script_error + variant \<times> 'w) \<Rightarrow> variant \<Rightarrow> 'w
     \<Rightarrow> script_error + variant \<times> 'w" where
  "handle_input_event inject params w =
     (case params of
        VDictionary ps \<Rightarrow>
          (case as_String (dict_get ps ''event_type'' (VString '''')) of
             Inl e \<Rightarrow> Inl e
           | Inr event_type \<Rightarrow>
               if event_type = ''key'' \<or> event_type = ''mouse_button'' \<or> event_type = ''mouse_motion''
               then inject event_type params w
               else Inr (status_error (''Unknown event_type: '' @ event_type), w))
      | _ \<Rightarrow> Inr (status_error ''Invalid params'', w))"

text \<open>
  As a callable in the registry: a handler that stopped with a script error has returned
  nothing, and its caller receives null.
\<close>

definition as_handler :: "(variant \<Rightarrow> 'w \<Rightarrow> script_error + variant \<times> 'w) \<Rightarrow> 'w handler" where
  "as_handler f params w = (case f params w of Inl e \<Rightarrow> (VNil, w) | Inr r \<Rightarrow> r)"

text \<open>A response in the error shape: a dictionary with the key \<open>error\<close> at its top.\<close>

definition is_error_response :: "variant \<Rightarrow> bool" where
  "is_error_response frame = (case frame of VDictionary kvs \<Rightarrow> dict_has kvs ''error'' | _ \<Rightarrow> False)"

text \<open>
  Scenarios: a scene that has only its root, the plugin after \<open>_ready\<close> with the live scene
  handler, the input handler and the screenshot handler in place, a parser that knows a few
  frames, and the rendering of Godot 4.4.
\<close>

definition demo_scene :: scene where
  "demo_scene =
     \<lparr> tree = True, get_node_or_null = (\<lambda>p. None), root = 0,
       assigned = (\<lambda>_. []), files = no_files \<rparr>"

definition demo_callable :: "string \<Rightarrow> scene handler" where
  "demo_callable name =
     (if name = ''set_node_property'' then as_handler handle_set_property
      else if name = ''send_input_event'' then
        as_handler (handle_input_event (\<lambda>kind params w. Inr (VDictionary [(''status'', VString ''ok'')], w)))
      else if name = ''capture_screenshot'' then screenshot_handle 0
      else (\<lambda>params w. (VNil, w)))"

definition demo_server :: "scene server" where
  "demo_server = ready demo_callable demo_scene"

definition demo_parse :: "string \<Rightarrow> string + variant" where
  "demo_parse data =
     (if data = ''unknown'' then
        Inr (VDictionary [(''id'', VString ''5''), (''method'', VString ''does_not_exist''),
                          (''params'', VDictionary [])])
      else if data = ''missing node'' then
        Inr (VDictionary [(''id'', VString ''7''), (''method'', VString ''set_node_property''),
                          (''params'', VDictionary [(''node_path'', VString ''/root/Missing''),
                                                    (''property'', VString ''visible''),
                                                    (''value'', VBool False)])])
      else if data = ''set'' then
        Inr (VDictionary [(''id'', VString ''8''), (''method'', VString ''set_node_property''),
                          (''params'', VDictionary [(''node_path'', VString ''/root''),
                                                    (''property'', VString ''size''),
                                                    (''value'', VDictionary [(''_type'', VString ''Vector2i''),
                                                                             (''x'', VFloat 640),
                                                                             (''y'', VFloat 480)])])])
      else if data = ''touch'' then
        Inr (VDictionary [(''id'', VString ''10''), (''method'', VString ''send_input_event''),
                          (''params'', VDictionary [(''event_type'', VString ''touch'')])])
      else if data = ''screenshot'' then
        Inr (VDictionary [(''id'', VString ''9''), (''method'', VString ''capture_screenshot'')])
      else if data = ''ping'' then
        Inr (VDictionary [(''method'', VString ''ping'')])
      else if data = ''ping 5'' then
        Inr (VDictionary [(''id'', VFloat 5), (''method'', VString ''ping'')])
      else if data = ''numeric method'' then
        Inr (VDictionary [(''id'', VString ''6''), (''method'', VFloat 5)])
      else Inl ''Unexpected character'')"

definition demo_render :: "variant \<Rightarrow> string" where
  "demo_render = engine_render Trailing_zero (\<lambda>v. ''<value>'')"

text \<open>The id of a response frame: the string under \<open>id\<close>, its first key.\<close>

definition response_id :: "variant \<Rightarrow> string option" where
  "response_id frame =
     (case frame of
        VDictionary ((k, VString rid) # rest) \<Rightarrow> if k = ''id'' then Some rid else None
      | _ \<Rightarrow> None)"


section \<open>Properties of the parameter normalizer\<close>

lemma not_upper_lower: "is_upper c \<Longrightarrow> \<not> is_upper (toLowerCase_letter c)"
  by (simp add: is_upper_def toLowerCase_letter_def)

lemma not_upper_underscore: "\<not> is_upper CHR ''_''"
  by (simp add: is_upper_def)

lemma replace_capitals_no_upper: "c \<in> set (replace_capitals k) \<Longrightarrow> \<not> is_upper c"
  by (induction k) (auto simp: not_upper_lower not_upper_underscore split: if_splits)

lemma replace_capitals_id: "(\<And>c. c \<in> set k \<Longrightarrow> \<not> is_upper c) \<Longrightarrow> replace_capitals k = k"
  by (induction k) auto

lemma replace_capitals_idem: "replace_capitals (replace_capitals k) = replace_capitals k"
  by (rule replace_capitals_id) (rule replace_capitals_no_upper)

lemma table_forward: "list_all (\<lambda>(k, c). snakeKey (normalizedKey k) = k) parameterMappings"
  by code_simp

lemma table_backward: "list_all (\<lambda>(k, c). normalizedKey (snakeKey c) = c) parameterMappings"
  by code_simp

lemma prop_assign_single:
  "k \<noteq> ''__proto__'' \<Longrightarrow> prop_assign [] k v = [(k, v)]"
  by (simp add: prop_assign_def)

lemma table_keys_not_proto:
  "list_all (\<lambda>(k, c). snakeKey c \<noteq> ''__proto__'' \<and> normalizedKey k \<noteq> ''__proto__'' \<and>
                      k \<noteq> ''__proto__'' \<and> c \<noteq> ''__proto__'') parameterMappings"
  by code_simp

lemma normalize_then_snake:
  "(\<And>kvs. v \<noteq> JObj kvs) \<Longrightarrow> normalizedKey k \<noteq> ''__proto__'' \<Longrightarrow>
   snakeKey (normalizedKey k) \<noteq> ''__proto__'' \<Longrightarrow>
   convertCamelToSnakeCase (normalizeParameters (JObj [(k, v)])) = JObj [(snakeKey (normalizedKey k), v)]"
  by (cases v; simp add: prop_assign_single; blast)

lemma snake_then_normalize:
  "(\<And>kvs. v \<noteq> JObj kvs) \<Longrightarrow> snakeKey c \<noteq> ''__proto__'' \<Longrightarrow>
   normalizedKey (snakeKey c) \<noteq> ''__proto__'' \<Longrightarrow>
   normalizeParameters (convertCamelToSnakeCase (JObj [(c, v)])) = JObj [(normalizedKey (snakeKey c), v)]"
  by (cases v; simp add: prop_assign_single; blast)

text \<open>
  The names that a lookup in a plain object finds in \<open>Object.prototype\<close>, and what the
  wire direction does with a key that is none of them.
\<close>

lemma inherited_name_iff:
  "inherited_name k \<longleftrightarrow> k = ''__proto__'' \<or> k \<in> set Object_prototype_functions"
  by (simp add: inherited_name_def)

lemma reverse_entries:
  "list_all (\<lambda>(c, s). s \<noteq> [] \<and> snakeKey s = s \<and> ((\<forall>ch \<in> set c. \<not> is_upper ch) \<longrightarrow> s = c))
     reverseParameterMappings"
  by code_simp

lemma reverse_entry:
  assumes "own_prop reverseParameterMappings c = Some s"
  shows "s \<noteq> []" "snakeKey s = s" "(\<And>ch. ch \<in> set c \<Longrightarrow> \<not> is_upper ch) \<Longrightarrow> s = c"
proof -
  from assms have "(c, s) \<in> set reverseParameterMappings"
    by (simp add: own_prop_def map_of_SomeD)
  with reverse_entries
  have *: "s \<noteq> [] \<and> snakeKey s = s \<and> ((\<forall>ch \<in> set c. \<not> is_upper ch) \<longrightarrow> s = c)"
    by (auto simp: list_all_iff)
  from * show "s \<noteq> []" "snakeKey s = s" by simp_all
  from * show "(\<And>ch. ch \<in> set c \<Longrightarrow> \<not> is_upper ch) \<Longrightarrow> s = c" by blast
qed

lemma snakeKey_own:
  "own_prop reverseParameterMappings k = Some s \<Longrightarrow> snakeKey k = s"
  using reverse_entry(1)[of k s]
  by (simp add: snakeKey_def table_get_def truthy_lookup_def property_key_def)

lemma snakeKey_derived:
  "own_prop reverseParameterMappings k = None \<Longrightarrow> \<not> inherited_name k \<Longrightarrow>
   snakeKey k = replace_capitals k"
  by (simp add: snakeKey_def table_get_def truthy_lookup_def inherited_name_def)

lemma snakeKey_idem:
  assumes "\<not> inherited_name k" "\<not> inherited_name (replace_capitals k)"
  shows "snakeKey (snakeKey k) = snakeKey k"
proof (cases "own_prop reverseParameterMappings k")
  case (Some s)
  then show ?thesis by (simp add: snakeKey_own reverse_entry(2)[OF Some])
next
  case None
  let ?r = "replace_capitals k"
  have k: "snakeKey k = ?r" using None assms(1) by (rule snakeKey_derived)
  show ?thesis
  proof (cases "own_prop reverseParameterMappings ?r")
    case (Some s)
    have "s = ?r" using reverse_entry(3)[OF Some] replace_capitals_no_upper by blast
    then show ?thesis using Some by (simp add: k snakeKey_own)
  next
    case None
    then show ?thesis using assms(2) by (simp add: k snakeKey_derived replace_capitals_idem)
  qed
qed

text \<open>
  For every key of the mapping table, normalising and then converting back gives the key
  again, and so does converting a table's camel-case key to snake case and normalising it;
  this holds of the keys and of the two functions applied to an object with such a key. For
  every key that is not the name of a member of \<open>Object.prototype\<close>, and that the
  replacement of capitals does not turn into such a name, the wire direction is idempotent:
  on the key and on an object with that key.
\<close>

theorem naming_round_trip:
  "(\<forall>k \<in> fst ` set parameterMappings.
      snakeKey (normalizedKey k) = k \<and>
      (\<forall>v. (\<forall>kvs. v \<noteq> JObj kvs) \<longrightarrow>
           convertCamelToSnakeCase (normalizeParameters (JObj [(k, v)])) = JObj [(k, v)])) \<and>
   (\<forall>c \<in> snd ` set parameterMappings.
      normalizedKey (snakeKey c) = c \<and>
      (\<forall>v. (\<forall>kvs. v \<noteq> JObj kvs) \<longrightarrow>
           normalizeParameters (convertCamelToSnakeCase (JObj [(c, v)])) = JObj [(c, v)])) \<and>
   (\<forall>k. \<not> inherited_name k \<and> \<not> inherited_name (replace_capitals k) \<longrightarrow>
      snakeKey (snakeKey k) = snakeKey k \<and>
      (\<forall>v. (\<forall>kvs. v \<noteq> JObj kvs) \<longrightarrow>
           convertCamelToSnakeCase (convertCamelToSnakeCase (JObj [(k, v)]))
             = convertCamelToSnakeCase (JObj [(k, v)]))) \<and>
   (\<forall>k. replace_capitals (replace_capitals k) = replace_capitals k)"
proof (intro conjI ballI allI impI)
  fix k assume m: "k \<in> fst ` set parameterMappings"
  then show k: "snakeKey (normalizedKey k) = k"
    using table_forward by (auto simp: list_all_iff)
  from m have p: "normalizedKey k \<noteq> ''__proto__'' \<and> k \<noteq> ''__proto__''"
    using table_keys_not_proto by (auto simp: list_all_iff)
  fix v assume "\<forall>kvs. v \<noteq> JObj kvs"
  then show "convertCamelToSnakeCase (normalizeParameters (JObj [(k, v)])) = JObj [(k, v)]"
    using normalize_then_snake[of v k] p by (simp add: k)
next
  fix c assume m: "c \<in> snd ` set parameterMappings"
  then show c: "normalizedKey (snakeKey c) = c"
    using table_backward by (auto simp: list_all_iff)
  from m have p: "snakeKey c \<noteq> ''__proto__'' \<and> c \<noteq> ''__proto__''"
    using table_keys_not_proto by (auto simp: list_all_iff)
  fix v assume "\<forall>kvs. v \<noteq> JObj kvs"
  then show "normalizeParameters (convertCamelToSnakeCase (JObj [(c, v)])) = JObj [(c, v)]"
    using snake_then_normalize[of v c] p by (simp add: c)
next
  fix k assume a: "\<not> inherited_name k \<and> \<not> inherited_name (replace_capitals k)"
  then show i: "snakeKey (snakeKey k) = snakeKey k" by (simp add: snakeKey_idem)
  fix v assume v: "\<forall>kvs. v \<noteq> JObj kvs"
  have n: "snakeKey k \<noteq> ''__proto__''"
  proof (cases "own_prop reverseParameterMappings k")
    case (Some s)
    have "snakeKey s = s" by (rule reverse_entry(2)[OF Some])
    moreover have "snakeKey ''__proto__'' \<noteq> ''__proto__''" by code_simp
    ultimately show ?thesis using Some by (auto simp: snakeKey_own)
  next
    case None
    then show ?thesis using a by (auto simp: snakeKey_derived inherited_name_def)
  qed
  show "convertCamelToSnakeCase (convertCamelToSnakeCase (JObj [(k, v)]))
             = convertCamelToSnakeCase (JObj [(k, v)])"
    using v n by (cases v; simp add: prop_assign_single i; blast)
next
  fix k show "replace_capitals (replace_capitals k) = replace_capitals k"
    by (rule replace_capitals_idem)
qed

theorem naming_round_trip_witness:
  "''node_path'' \<in> fst ` set parameterMappings \<and>
   snakeKey (normalizedKey ''node_path'') = ''node_path'' \<and>
   convertCamelToSnakeCase (normalizeParameters (JObj [(''node_path'', JStr ''/root/Main'')]))
     = JObj [(''node_path'', JStr ''/root/Main'')] \<and>
   ''nodePath'' \<in> snd ` set parameterMappings \<and>
   normalizedKey (snakeKey ''nodePath'') = ''nodePath'' \<and>
   normalizeParameters (convertCamelToSnakeCase (JObj [(''nodePath'', JStr ''/root/Main'')]))
     = JObj [(''nodePath'', JStr ''/root/Main'')] \<and>
   \<not> inherited_name ''zIndex'' \<and> \<not> inherited_name (replace_capitals ''zIndex'') \<and>
   snakeKey ''zIndex'' = ''z_index'' \<and> snakeKey (snakeKey ''zIndex'') = ''z_index'' \<and>
   convertCamelToSnakeCase (convertCamelToSnakeCase (JObj [(''zIndex'', JNum 2)]))
     = JObj [(''z_index'', JNum 2)]"
proof -
  have k: "''node_path'' \<in> fst ` set parameterMappings"
    by (simp add: parameterMappings_def)
  have c: "''nodePath'' \<in> snd ` set parameterMappings"
    by (simp add: parameterMappings_def)
  have v: "\<forall>kvs. JStr ''/root/Main'' \<noteq> JObj kvs" "\<forall>kvs. JNum 2 \<noteq> JObj kvs" by simp_all
  have z: "\<not> inherited_name ''zIndex'' \<and> \<not> inherited_name (replace_capitals ''zIndex'')"
    by code_simp
  have s: "snakeKey ''zIndex'' = ''z_index''" by code_simp
  have o: "convertCamelToSnakeCase (JObj [(''zIndex'', JNum 2)]) = JObj [(''z_index'', JNum 2)]"
    by code_simp
  from naming_round_trip k c v z s o show ?thesis by metis
qed

text \<open>
  C9. The key \<open>toString\<close> is not in the table, yet the wire direction does not derive
  \<open>to_string\<close> from it: the lookup in the reverse table finds the function inherited from
  \<open>Object.prototype\<close>, and the key stored is that function's text. Applied again, the
  result changes once more, so on this key the wire direction is not idempotent.
\<close>

theorem inherited_key_not_idempotent:
  "''toString'' \<notin> fst ` set parameterMappings \<and> ''toString'' \<notin> snd ` set parameterMappings \<and>
   snakeKey ''toString'' = ''function toString() { [native code] }'' \<and>
   snakeKey (snakeKey ''toString'') = ''function to_string() { [native code] }'' \<and>
   convertCamelToSnakeCase (JObj [(''toString'', JNum 1)])
     = JObj [(''function toString() { [native code] }'', JNum 1)] \<and>
   convertCamelToSnakeCase (convertCamelToSnakeCase (JObj [(''toString'', JNum 1)]))
     = JObj [(''function to_string() { [native code] }'', JNum 1)] \<and>
   convertCamelToSnakeCase (convertCamelToSnakeCase (JObj [(''toString'', JNum 1)]))
     \<noteq> convertCamelToSnakeCase (JObj [(''toString'', JNum 1)])"
  by code_simp
section \<open>Properties of the bridge client\<close>

lemma settle_fields [simp]:
  "ws (settle st p out) = ws st" "sockets (settle st p out) = sockets st"
  "pendingRequests (settle st p out) = pendingRequests st" "timers (settle st p out) = timers st"
  "connectPromise (settle st p out) = connectPromise st"
  "next_socket (settle st p out) = next_socket st" "next_promise (settle st p out) = next_promise st"
  by (simp_all add: settle_def)

lemma settle_promises:
  "promises (settle st p out) q = (if q = p \<and> promises st p = Pending then out else promises st q)"
  by (simp add: settle_def)

lemma clearTimeout_fields [simp]:
  "ws (clearTimeout st t) = ws st" "sockets (clearTimeout st t) = sockets st"
  "pendingRequests (clearTimeout st t) = pendingRequests st" "promises (clearTimeout st t) = promises st"
  "connectPromise (clearTimeout st t) = connectPromise st"
  "next_socket (clearTimeout st t) = next_socket st" "next_promise (clearTimeout st t) = next_promise st"
  by (simp_all add: clearTimeout_def)

lemma map_of_filter_key:
  "map_of (filter (\<lambda>e. fst e \<noteq> t) xs) u = (if u = t then None else map_of xs u)"
  by (induction xs) auto

lemma own_timer_clear:
  "own_timer (timers (clearTimeout st t)) u = (if u = t then None else own_timer (timers st) u)"
  by (simp add: clearTimeout_def own_timer_def map_of_filter_key)

lemma own_prop_delete: "own_prop (map_delete m k) j = (if j = k then None else own_prop m j)"
  by (simp add: map_delete_def own_prop_def map_of_filter_key)

lemma reject_all_fields [simp]:
  "ws (reject_all st es) = ws st" "sockets (reject_all st es) = sockets st"
  "pendingRequests (reject_all st es) = pendingRequests st"
  "connectPromise (reject_all st es) = connectPromise st"
  "next_socket (reject_all st es) = next_socket st" "next_promise (reject_all st es) = next_promise st"
  by (induction st es rule: reject_all.induct) simp_all

lemma reject_all_promises:
  "promises (reject_all st es) q =
     (if q \<in> settles ` snd ` set es \<and> promises st q = Pending
      then Rejected (Error ''Bridge connection closed'') else promises st q)"
  by (induction st es rule: reject_all.induct) (auto simp: settle_promises)

lemma request_send_fields [simp]:
  "ws (request_send st c) = ws st" "sockets (request_send st c) = sockets st"
  by (auto simp: request_send_def Let_def split: option.splits)

lemma resume_calls_fields [simp]:
  "ws (resume_calls st out cs) = ws st" "sockets (resume_calls st out cs) = sockets st"
  by (induction st out cs rule: resume_calls.induct) (auto split: promise.splits)

lemma settle_connect_fields [simp]:
  "ws (settle_connect st p out) = ws st" "sockets (settle_connect st p out) = sockets st"
  by (auto simp: settle_connect_def Let_def)

lemma isConnected_on_open: "isConnected (on_open st s)"
  by (simp add: on_open_def isConnected_def Let_def)

lemma on_message_found:
  assumes "parse data = Some (JObj kvs)" "own_prop kvs ''id'' = Some (JStr i)"
    "own_prop (pendingRequests st) i = Some e"
  shows "on_message parse st data =
     settle ((clearTimeout st (timer e))\<lparr> pendingRequests := map_delete (pendingRequests st) i \<rparr>) (settles e)
       (if truthy (own_prop kvs ''error'')
        then Rejected (Bridge_error (case own_prop kvs ''error'' of Some err \<Rightarrow> member err ''message'' | None \<Rightarrow> None))
        else Fulfilled (own_prop kvs ''result''))"
  using assms by (simp add: on_message_def pending_get_def pending_delete_def member_def Let_def)

lemma on_message_discard:
  "(case parse data of None \<Rightarrow> True | Some v \<Rightarrow> pending_get (pendingRequests st) (member v ''id'') = None)
    \<Longrightarrow> on_message parse st data = st"
  by (auto simp: on_message_def split: option.splits json.splits)

lemma String_nat_digits: "String_nat (Suc 0) = ''1''" "String_nat 2 = ''2''" "String_nat 3 = ''3''"
  by code_simp+

lemma connected_client_eq:
  "connected_client =
     \<lparr> ws = Some 0, requestId = 0, pendingRequests = [], connectPromise = None,
       promises = (\<lambda>_. Pending)(0 := Fulfilled None), next_promise = 1,
       sockets = (\<lambda>_. \<lparr> readyState = CLOSED, attempt = 0, deadline = 0 \<rparr>)
                   (0 := \<lparr> readyState = OPEN, attempt = 0, deadline = 0 \<rparr>), next_socket = 1,
       timers = [], next_timer = 1, awaiting_connect = [], sent = [] \<rparr>"
  by (simp add: connected_client_def new_client_def connect_def isConnected_def on_open_def
      clearTimeout_def settle_connect_def Let_def)

lemma two_calls_eq:
  "two_calls =
     \<lparr> ws = Some 0, requestId = 2,
       pendingRequests = [(''1'', \<lparr>settles = 1, timer = 1\<rparr>), (''2'', \<lparr>settles = 2, timer = 2\<rparr>)],
       connectPromise = None,
       promises = (\<lambda>_. Pending)(0 := Fulfilled None, 1 := Pending, 2 := Pending), next_promise = 3,
       sockets = (\<lambda>_. \<lparr> readyState = CLOSED, attempt = 0, deadline = 0 \<rparr>)
                   (0 := \<lparr> readyState = OPEN, attempt = 0, deadline = 0 \<rparr>), next_socket = 1,
       timers = [(1, Request_deadline ''1'' 1 ''ping'' 30000),
                 (2, Request_deadline ''2'' 2 ''get_scene_tree'' 30000)], next_timer = 3,
       awaiting_connect = [],
       sent = [(0, JObj [(''id'', JStr ''1''), (''method'', JStr ''ping'')]),
               (0, JObj [(''id'', JStr ''2''), (''method'', JStr ''get_scene_tree'')])] \<rparr>"
  by (simp add: two_calls_def connected_client_eq request_def isConnected_def request_send_def
      request_frame_def Let_def String_nat_digits numeral_2_eq_2[symmetric] numeral_3_eq_3[symmetric])

lemma three_calls_eq:
  "three_calls =
     \<lparr> ws = Some 0, requestId = 3,
       pendingRequests = [(''1'', \<lparr>settles = 1, timer = 1\<rparr>), (''2'', \<lparr>settles = 2, timer = 2\<rparr>),
                          (''3'', \<lparr>settles = 3, timer = 3\<rparr>)],
       connectPromise = None,
       promises = (\<lambda>_. Pending)(0 := Fulfilled None, 1 := Pending, 2 := Pending, 3 := Pending),
       next_promise = 4,
       sockets = (\<lambda>_. \<lparr> readyState = CLOSED, attempt = 0, deadline = 0 \<rparr>)
                   (0 := \<lparr> readyState = OPEN, attempt = 0, deadline = 0 \<rparr>), next_socket = 1,
       timers = [(1, Request_deadline ''1'' 1 ''ping'' 30000),
                 (2, Request_deadline ''2'' 2 ''get_scene_tree'' 30000),
                 (3, Request_deadline ''3'' 3 ''capture_screenshot'' 30000)], next_timer = 4,
       awaiting_connect = [],
       sent = [(0, JObj [(''id'', JStr ''1''), (''method'', JStr ''ping'')]),
               (0, JObj [(''id'', JStr ''2''), (''method'', JStr ''get_scene_tree'')]),
               (0, JObj [(''id'', JStr ''3''), (''method'', JStr ''capture_screenshot'')])] \<rparr>"
  by (simp add: three_calls_def two_calls_eq request_def isConnected_def request_send_def
      request_frame_def Let_def String_nat_digits)

text \<open>
  C1. A response frame whose id is the key of a pending call settles the promise of that
  call (rejecting when the frame carries a truthy error, resolving with the result
  otherwise), cancels its timer and removes its entry; every other entry, promise and timer
  is as before. A frame that does not parse, or whose id is the key of no pending call,
  leaves the client as it was.
\<close>

theorem response_correlation:
  "(\<forall>kvs i e. parse data = Some (JObj kvs) \<and> own_prop kvs ''id'' = Some (JStr i) \<and>
       own_prop (pendingRequests st) i = Some e \<longrightarrow>
     (let st' = on_message parse st data;
          outcome = (if truthy (own_prop kvs ''error'')
                     then Rejected (Bridge_error (case own_prop kvs ''error'' of
                                                    Some err \<Rightarrow> member err ''message'' | None \<Rightarrow> None))
                     else Fulfilled (own_prop kvs ''result''))
      in pendingRequests st' = map_delete (pendingRequests st) i \<and>
         own_prop (pendingRequests st') i = None \<and>
         (\<forall>j. j \<noteq> i \<longrightarrow> own_prop (pendingRequests st') j = own_prop (pendingRequests st) j) \<and>
         (promises st (settles e) = Pending \<longrightarrow> promises st' (settles e) = outcome) \<and>
         (\<forall>q. q \<noteq> settles e \<longrightarrow> promises st' q = promises st q) \<and>
         own_timer (timers st') (timer e) = None \<and>
         (\<forall>u. u \<noteq> timer e \<longrightarrow> own_timer (timers st') u = own_timer (timers st) u))) \<and>
   ((case parse data of None \<Rightarrow> True
      | Some v \<Rightarrow> pending_get (pendingRequests st) (member v ''id'') = None)
     \<longrightarrow> on_message parse st data = st)"
proof (intro conjI allI impI)
  fix kvs i e
  assume a: "parse data = Some (JObj kvs) \<and> own_prop kvs ''id'' = Some (JStr i) \<and>
       own_prop (pendingRequests st) i = Some e"
  show "let st' = on_message parse st data;
          outcome = (if truthy (own_prop kvs ''error'')
                     then Rejected (Bridge_error (case own_prop kvs ''error'' of
                                                    Some err \<Rightarrow> member err ''message'' | None \<Rightarrow> None))
                     else Fulfilled (own_prop kvs ''result''))
      in pendingRequests st' = map_delete (pendingRequests st) i \<and>
         own_prop (pendingRequests st') i = None \<and>
         (\<forall>j. j \<noteq> i \<longrightarrow> own_prop (pendingRequests st') j = own_prop (pendingRequests st) j) \<and>
         (promises st (settles e) = Pending \<longrightarrow> promises st' (settles e) = outcome) \<and>
         (\<forall>q. q \<noteq> settles e \<longrightarrow> promises st' q = promises st q) \<and>
         own_timer (timers st') (timer e) = None \<and>
         (\<forall>u. u \<noteq> timer e \<longrightarrow> own_timer (timers st') u = own_timer (timers st) u)"
    unfolding Let_def on_message_found[of parse data kvs i st e, OF conjunct1[OF a] conjunct1[OF conjunct2[OF a]] conjunct2[OF conjunct2[OF a]]]
    by (simp add: settle_promises own_prop_delete clearTimeout_def own_timer_def map_of_filter_key)
next
  assume "case parse data of None \<Rightarrow> True
      | Some v \<Rightarrow> pending_get (pendingRequests st) (member v ''id'') = None"
  then show "on_message parse st data = st" by (rule on_message_discard)
qed

text \<open>
  Two calls with ids 1 and 2 are in flight. The response to call 2 arrives first: the
  promise of call 2 is fulfilled, the promise of call 1 is still pending and its entry is
  the only one left. A response with the unknown id 9 changes nothing.
\<close>

theorem response_correlation_witness:
  "own_prop (pendingRequests two_calls) ''2'' = Some \<lparr>settles = 2, timer = 2\<rparr> \<and>
   promises two_calls 2 = Pending \<and>
   promises (on_message (\<lambda>_. Some (JObj [(''id'', JStr ''2''), (''result'', JStr ''ok'')])) two_calls ''B'') 2
     = Fulfilled (Some (JStr ''ok'')) \<and>
   promises (on_message (\<lambda>_. Some (JObj [(''id'', JStr ''2''), (''result'', JStr ''ok'')])) two_calls ''B'') 1
     = Pending \<and>
   pendingRequests (on_message (\<lambda>_. Some (JObj [(''id'', JStr ''2''), (''result'', JStr ''ok'')])) two_calls ''B'')
     = [(''1'', \<lparr>settles = 1, timer = 1\<rparr>)] \<and>
   on_message (\<lambda>_. Some (JObj [(''id'', JStr ''9''), (''result'', JStr ''late'')])) two_calls ''L'' = two_calls"
proof -
  let ?B = "\<lambda>_::string. Some (JObj [(''id'', JStr ''2''), (''result'', JStr ''ok'')])"
  let ?L = "\<lambda>_::string. Some (JObj [(''id'', JStr ''9''), (''result'', JStr ''late'')])"
  have e: "own_prop (pendingRequests two_calls) ''2'' = Some \<lparr>settles = 2, timer = 2\<rparr>"
    by (simp add: two_calls_eq own_prop_def)
  have p: "promises two_calls 2 = Pending" "promises two_calls 1 = Pending"
    by (simp_all add: two_calls_eq)
  have d: "map_delete (pendingRequests two_calls) ''2'' = [(''1'', \<lparr>settles = 1, timer = 1\<rparr>)]"
    by (simp add: two_calls_eq map_delete_def)
  have h: "?B ''B'' = Some (JObj [(''id'', JStr ''2''), (''result'', JStr ''ok'')]) \<and>
      own_prop [(''id'', JStr ''2''), (''result'', JStr ''ok'')] ''id'' = Some (JStr ''2'') \<and>
      own_prop (pendingRequests two_calls) ''2'' = Some \<lparr>settles = 2, timer = 2\<rparr>"
    using e by (simp add: own_prop_def)
  have l: "(case ?L ''L'' of None \<Rightarrow> True
      | Some v \<Rightarrow> pending_get (pendingRequests two_calls) (member v ''id'') = None)"
    by (simp add: two_calls_eq pending_get_def member_def own_prop_def)
  from response_correlation[of ?B "''B''" two_calls, THEN conjunct1, rule_format, OF h]
  have "promises (on_message ?B two_calls ''B'') 2 = Fulfilled (Some (JStr ''ok''))"
    and "promises (on_message ?B two_calls ''B'') 1 = Pending"
    and "pendingRequests (on_message ?B two_calls ''B'') = [(''1'', \<lparr>settles = 1, timer = 1\<rparr>)]"
    using p d by (simp_all add: Let_def own_prop_def)
  moreover from response_correlation[of ?L "''L''" two_calls, THEN conjunct2, rule_format, OF l]
  have "on_message ?L two_calls ''L'' = two_calls" .
  ultimately show ?thesis using e p by simp
qed

lemma on_close_fields:
  "pendingRequests (on_close st s) = []" "ws (on_close st s) = None"
  "connectPromise (on_close st s) = connectPromise st"
  "next_socket (on_close st s) = next_socket st" "next_promise (on_close st s) = next_promise st"
  by (simp_all add: on_close_def Let_def)

lemma on_close_promises:
  "promises (on_close st s) q =
     (if q \<in> settles ` snd ` set (pendingRequests st) \<and> promises st q = Pending
      then Rejected (Error ''Bridge connection closed'') else promises st q)"
  by (simp add: on_close_def Let_def reject_all_promises)

lemma no_socket_not_connected: "ws st = None \<Longrightarrow> \<not> isConnected st"
  by (simp add: isConnected_def)

lemma connect_fresh:
  assumes "\<not> isConnected st" "connectPromise st = None"
  shows "readyState (sockets (connect st) (next_socket st)) = CONNECTING"
    and "connectPromise (connect st) = Some (next_promise st)"
  using assms by (simp_all add: connect_def Let_def)

text \<open>
  C2. When the socket closes, the promise of every pending call that is still pending is
  rejected with the error "Bridge connection closed", no other promise changes, the table is
  empty and the client is not connected. If no connection attempt is in flight, a later
  \<open>connect()\<close> opens a new socket, and the client is connected once that socket opens.
\<close>

theorem connection_loss_fan_out:
  "(let st' = on_close st s in
     pendingRequests st' = [] \<and> ws st' = None \<and> \<not> isConnected st' \<and>
     (\<forall>e \<in> snd ` set (pendingRequests st). promises st (settles e) = Pending \<longrightarrow>
          promises st' (settles e) = Rejected (Error ''Bridge connection closed'')) \<and>
     (\<forall>q. q \<notin> settles ` snd ` set (pendingRequests st) \<longrightarrow> promises st' q = promises st q) \<and>
     (connectPromise st = None \<longrightarrow>
        (let st2 = connect st'; s2 = next_socket st' in
           readyState (sockets st2 s2) = CONNECTING \<and> connectPromise st2 = Some (next_promise st') \<and>
           isConnected (on_open st2 s2))))"
proof -
  have nc: "\<not> isConnected (on_close st s)"
    by (rule no_socket_not_connected) (rule on_close_fields)
  have fresh: "connectPromise st = None \<Longrightarrow>
      readyState (sockets (connect (on_close st s)) (next_socket (on_close st s))) = CONNECTING \<and>
      connectPromise (connect (on_close st s)) = Some (next_promise (on_close st s))"
    using connect_fresh[OF nc] by (simp add: on_close_fields)
  show ?thesis
    unfolding Let_def
    using nc fresh by (auto simp: on_close_fields(1,2) on_close_promises isConnected_on_open)
qed

text \<open>
  Three calls are pending when the socket closes: all three promises are rejected, the
  table is empty, and connecting again succeeds.
\<close>

theorem connection_loss_fan_out_witness:
  "map (settles \<circ> snd) (pendingRequests three_calls) = [1, 2, 3] \<and>
   map (promises three_calls) [1, 2, 3] = [Pending, Pending, Pending] \<and>
   connectPromise three_calls = None \<and>
   map (promises (on_close three_calls 0)) [1, 2, 3] =
     [Rejected (Error ''Bridge connection closed''), Rejected (Error ''Bridge connection closed''),
      Rejected (Error ''Bridge connection closed'')] \<and>
   promises (on_close three_calls 0) 0 = Fulfilled None \<and>
   pendingRequests (on_close three_calls 0) = [] \<and>
   \<not> isConnected (on_close three_calls 0) \<and>
   isConnected (on_open (connect (on_close three_calls 0)) (next_socket (on_close three_calls 0)))"
proof -
  have s: "snd ` set (pendingRequests three_calls) =
      {\<lparr>settles = 1, timer = 1\<rparr>, \<lparr>settles = 2, timer = 2\<rparr>, \<lparr>settles = 3, timer = 3\<rparr>}"
    by (simp add: three_calls_eq)
  have p: "map (promises three_calls) [0, 1, 2, 3] = [Fulfilled None, Pending, Pending, Pending]"
    "connectPromise three_calls = None"
    "map (settles \<circ> snd) (pendingRequests three_calls) = [1, 2, 3]"
    by (simp_all add: three_calls_eq)
  from connection_loss_fan_out[of three_calls 0] show ?thesis
    using p unfolding Let_def s by simp
qed

section \<open>Properties of the typed-value codec\<close>

lemma convert_dict:
  "convert_typed_value rl (VDictionary value) =
     (case map_of value ''_type'' of
        None \<Rightarrow> Inr (VDictionary (convert_fields rl value []))
      | Some (VString t) \<Rightarrow>
          if t = ''Vector2'' then typed_Vector2 value
          else if t = ''Vector2i'' then typed_Vector2i value
          else if t = ''Vector3'' then typed_Vector3 value
          else if t = ''Vector3i'' then typed_Vector3i value
          else if t = ''Color'' then typed_Color value
          else if t = ''Rect2'' then typed_Rect2 value
          else if t = ''NodePath'' then typed_NodePath value
          else if t = ''Resource'' then typed_Resource rl value
          else if t = ''RectangleShape2D'' then
            Inr (VObject ''RectangleShape2D''
                  (case map_of value ''size'' of
                     None \<Rightarrow> []
                   | Some sz \<Rightarrow> [(''size'', received (convert_typed_value rl sz))]))
          else if t = ''CircleShape2D'' then
            Inr (VObject ''CircleShape2D''
                  (case map_of value ''radius'' of None \<Rightarrow> [] | Some r \<Rightarrow> [(''radius'', r)]))
          else if t = ''CapsuleShape2D'' then
            Inr (VObject ''CapsuleShape2D''
                  ((case map_of value ''radius'' of None \<Rightarrow> [] | Some r \<Rightarrow> [(''radius'', r)]) @
                   (case map_of value ''height'' of None \<Rightarrow> [] | Some h \<Rightarrow> [(''height'', h)])))
          else if t = ''WorldBoundaryShape2D'' then
            Inr (VObject ''WorldBoundaryShape2D''
                  ((case map_of value ''normal'' of
                      None \<Rightarrow> []
                    | Some n \<Rightarrow> [(''normal'', received (convert_typed_value rl n))]) @
                   (case map_of value ''distance'' of None \<Rightarrow> [] | Some d \<Rightarrow> [(''distance'', d)])))
          else if t = ''SegmentShape2D'' then
            Inr (VObject ''SegmentShape2D''
                  ((case map_of value ''a'' of
                      None \<Rightarrow> []
                    | Some a \<Rightarrow> [(''a'', received (convert_typed_value rl a))]) @
                   (case map_of value ''b'' of
                      None \<Rightarrow> []
                    | Some b \<Rightarrow> [(''b'', received (convert_typed_value rl b))])))
          else if t = ''ConvexPolygonShape2D'' then
            (case map_of value ''points'' of
               Some (VArray points) \<Rightarrow>
                 Inr (VObject ''ConvexPolygonShape2D''
                       [(''points'', VPackedVector2Array (convert_points rl points []))])
             | _ \<Rightarrow> Inr (VObject ''ConvexPolygonShape2D'' []))
          else Inr (VDictionary value)
      | Some _ \<Rightarrow> Inl (Invalid_operands ''String + non-String''))"
  by (subst convert_typed_value.simps(1)) simp

lemma convert_other: "(\<And>value. v \<noteq> VDictionary value) \<Longrightarrow> convert_typed_value rl v = Inr v"
  by (subst convert_typed_value.simps(1)) (cases v; simp; blast)

lemma live_convert_dict:
  "live_convert_typed_value rl (VDictionary value) =
     (case map_of value ''_type'' of
        None \<Rightarrow> Inr (VDictionary (live_convert_fields rl value []))
      | Some tv \<Rightarrow>
          (case as_String tv of
             Inl e \<Rightarrow> Inl e
           | Inr t \<Rightarrow>
               if t = ''Vector2'' then typed_Vector2 value
               else if t = ''Vector2i'' then typed_Vector2i value
               else if t = ''Vector3'' then typed_Vector3 value
               else if t = ''Vector3i'' then typed_Vector3i value
               else if t = ''Color'' then typed_Color value
               else if t = ''Rect2'' then typed_Rect2 value
               else if t = ''NodePath'' then typed_NodePath value
               else if t = ''Resource'' then typed_Resource rl value
               else Inr (VDictionary value)))"
  by (subst live_convert_typed_value.simps(1)) simp

lemma live_convert_other:
  "(\<And>value. v \<noteq> VDictionary value) \<Longrightarrow> live_convert_typed_value rl v = Inr v"
  by (subst live_convert_typed_value.simps(1)) (cases v; simp; blast)

lemma obj_set_keys: "fst ` set (obj_set m k v) = insert k (fst ` set m)"
  by (induction m k v rule: obj_set.induct) auto

lemma obj_set_fresh: "k \<notin> fst ` set m \<Longrightarrow> obj_set m k v = m @ [(k, v)]"
  by (induction m k v rule: obj_set.induct) auto

lemma convert_fields_keys:
  "fst ` set (convert_fields rl kvs acc) = fst ` set acc \<union> fst ` set kvs"
proof (induction kvs arbitrary: acc)
  case Nil
  then show ?case by simp
next
  case (Cons kv kvs)
  obtain k v where kv: "kv = (k, v)" by (cases kv)
  show ?case by (simp add: kv Cons.IH obj_set_keys)
qed

lemma live_convert_fields_keys:
  "fst ` set (live_convert_fields rl kvs acc) = fst ` set acc \<union> fst ` set kvs"
proof (induction kvs arbitrary: acc)
  case Nil
  then show ?case by simp
next
  case (Cons kv kvs)
  obtain k v where kv: "kv = (k, v)" by (cases kv)
  show ?case by (simp add: kv Cons.IH obj_set_keys)
qed

lemma convert_fields_map:
  "distinct (map fst kvs) \<Longrightarrow> fst ` set acc \<inter> fst ` set kvs = {} \<Longrightarrow>
   convert_fields rl kvs acc
     = acc @ map (\<lambda>(k, v). (k, received (convert_typed_value rl v))) kvs"
proof (induction kvs arbitrary: acc)
  case Nil
  then show ?case by simp
next
  case (Cons kv kvs)
  obtain k v where kv: "kv = (k, v)" by (cases kv)
  let ?v = "received (convert_typed_value rl v)"
  have fresh: "k \<notin> fst ` set acc" using Cons.prems(2) by (auto simp: kv)
  have "convert_fields rl kvs (acc @ [(k, ?v)])
      = (acc @ [(k, ?v)]) @ map (\<lambda>(k, v). (k, received (convert_typed_value rl v))) kvs"
  proof (rule Cons.IH)
    show "distinct (map fst kvs)" using Cons.prems(1) by simp
    show "fst ` set (acc @ [(k, ?v)]) \<inter> fst ` set kvs = {}"
      using Cons.prems(1,2) by (auto simp: kv)
  qed
  then show ?case by (simp add: kv obj_set_fresh[OF fresh])
qed

lemma live_convert_fields_map:
  "distinct (map fst kvs) \<Longrightarrow> fst ` set acc \<inter> fst ` set kvs = {} \<Longrightarrow>
   live_convert_fields rl kvs acc
     = acc @ map (\<lambda>(k, v). (k, received (live_convert_typed_value rl v))) kvs"
proof (induction kvs arbitrary: acc)
  case Nil
  then show ?case by simp
next
  case (Cons kv kvs)
  obtain k v where kv: "kv = (k, v)" by (cases kv)
  let ?v = "received (live_convert_typed_value rl v)"
  have fresh: "k \<notin> fst ` set acc" using Cons.prems(2) by (auto simp: kv)
  have "live_convert_fields rl kvs (acc @ [(k, ?v)])
      = (acc @ [(k, ?v)]) @ map (\<lambda>(k, v). (k, received (live_convert_typed_value rl v))) kvs"
  proof (rule Cons.IH)
    show "distinct (map fst kvs)" using Cons.prems(1) by simp
    show "fst ` set (acc @ [(k, ?v)]) \<inter> fst ` set kvs = {}"
      using Cons.prems(1,2) by (auto simp: kv)
  qed
  then show ?case by (simp add: kv obj_set_fresh[OF fresh])
qed

lemma untagged_decodes:
  assumes "map_of value ''_type'' = None"
  shows "convert_typed_value rl (VDictionary value) = Inr (VDictionary (convert_fields rl value []))"
    "live_convert_typed_value rl (VDictionary value) = Inr (VDictionary (live_convert_fields rl value []))"
  using assms by (simp_all add: convert_dict live_convert_dict)

lemma untagged_stays_dictionary:
  assumes "map_of value ''_type'' = None" "convert_typed_value rl (VDictionary value) = Inr r"
  shows "\<exists>kvs. r = VDictionary kvs \<and> fst ` set kvs = fst ` set value"
  using assms by (auto simp: convert_dict convert_fields_keys)

lemma live_untagged_stays_dictionary:
  assumes "map_of value ''_type'' = None" "live_convert_typed_value rl (VDictionary value) = Inr r"
  shows "\<exists>kvs. r = VDictionary kvs \<and> fst ` set kvs = fst ` set value"
  using assms by (auto simp: live_convert_dict live_convert_fields_keys)

lemma untagged_recursive:
  assumes "map_of value ''_type'' = None" "distinct (map fst value)"
  shows "convert_typed_value rl (VDictionary value)
    = Inr (VDictionary (map (\<lambda>(k, v). (k, received (convert_typed_value rl v))) value))"
  using convert_fields_map[of "value" "[]" rl] assms by (simp add: convert_dict)

lemma live_untagged_recursive:
  assumes "map_of value ''_type'' = None" "distinct (map fst value)"
  shows "live_convert_typed_value rl (VDictionary value)
    = Inr (VDictionary (map (\<lambda>(k, v). (k, received (live_convert_typed_value rl v))) value))"
  using live_convert_fields_map[of "value" "[]" rl] assms by (simp add: live_convert_dict)

lemma unknown_type_unchanged:
  assumes "map_of value ''_type'' = Some (VString t)" "t \<notin> set KNOWN_TYPES"
  shows "convert_typed_value rl (VDictionary value) = Inr (VDictionary value)"
  using assms by (simp add: convert_dict KNOWN_TYPES_def)

lemma live_unknown_type_unchanged:
  assumes "map_of value ''_type'' = Some (VString t)" "t \<notin> set KNOWN_TYPES \<or> t \<in> set SHAPE_2D_TYPES"
  shows "live_convert_typed_value rl (VDictionary value) = Inr (VDictionary value)"
  using assms by (auto simp: live_convert_dict KNOWN_TYPES_def SHAPE_2D_TYPES_def as_String_def)

lemma plain_xy_unchanged:
  "convert_typed_value rl (VDictionary [(''x'', VFloat 1), (''y'', VFloat 2)])
     = Inr (VDictionary [(''x'', VFloat 1), (''y'', VFloat 2)])"
  "live_convert_typed_value rl (VDictionary [(''x'', VFloat 1), (''y'', VFloat 2)])
     = Inr (VDictionary [(''x'', VFloat 1), (''y'', VFloat 2)])"
  by (simp_all add: convert_dict live_convert_dict convert_other live_convert_other received_def)

lemma nested_xy_unchanged:
  "convert_typed_value rl (VDictionary [(''a'', VDictionary [(''x'', VFloat 1), (''y'', VFloat 2)])])
     = Inr (VDictionary [(''a'', VDictionary [(''x'', VFloat 1), (''y'', VFloat 2)])])"
  "live_convert_typed_value rl (VDictionary [(''a'', VDictionary [(''x'', VFloat 1), (''y'', VFloat 2)])])
     = Inr (VDictionary [(''a'', VDictionary [(''x'', VFloat 1), (''y'', VFloat 2)])])"
  by (simp_all add: convert_dict live_convert_dict convert_other live_convert_other received_def)

text \<open>
  A dictionary without the key \<open>_type\<close> is never turned into a typed value: both decoders
  return a dictionary with the same keys, and it holds every value decoded (for distinct
  keys, as dictionaries have them, and values whose decoding the model covers), null where
  the decoding of a value was stopped. A dictionary whose discriminator is a string outside
  the registry is returned unchanged. The example of the spec is returned unchanged.
\<close>

theorem decode_untagged_or_unknown:
  "(map_of value ''_type'' = None \<longrightarrow>
      (\<exists>kvs. convert_typed_value rl (VDictionary value) = Inr (VDictionary kvs) \<and>
             fst ` set kvs = fst ` set value) \<and>
      (\<exists>kvs. live_convert_typed_value rl (VDictionary value) = Inr (VDictionary kvs) \<and>
             fst ` set kvs = fst ` set value) \<and>
      (distinct (map fst value) \<and> (\<forall>(k, v) \<in> set value. modelled (convert_typed_value rl v)) \<longrightarrow>
         convert_typed_value rl (VDictionary value)
           = Inr (VDictionary (map (\<lambda>(k, v). (k, received (convert_typed_value rl v))) value))) \<and>
      (distinct (map fst value) \<and> (\<forall>(k, v) \<in> set value. modelled (live_convert_typed_value rl v)) \<longrightarrow>
         live_convert_typed_value rl (VDictionary value)
           = Inr (VDictionary (map (\<lambda>(k, v). (k, received (live_convert_typed_value rl v))) value)))) \<and>
   (\<forall>t. map_of value ''_type'' = Some (VString t) \<and> t \<notin> set KNOWN_TYPES \<longrightarrow>
      convert_typed_value rl (VDictionary value) = Inr (VDictionary value) \<and>
      live_convert_typed_value rl (VDictionary value) = Inr (VDictionary value)) \<and>
   convert_typed_value rl (VDictionary [(''a'', VDictionary [(''x'', VFloat 1), (''y'', VFloat 2)])])
     = Inr (VDictionary [(''a'', VDictionary [(''x'', VFloat 1), (''y'', VFloat 2)])]) \<and>
   live_convert_typed_value rl (VDictionary [(''a'', VDictionary [(''x'', VFloat 1), (''y'', VFloat 2)])])
     = Inr (VDictionary [(''a'', VDictionary [(''x'', VFloat 1), (''y'', VFloat 2)])])"
proof (intro conjI impI allI)
  assume n: "map_of value ''_type'' = None"
  show "\<exists>kvs. convert_typed_value rl (VDictionary value) = Inr (VDictionary kvs) \<and>
             fst ` set kvs = fst ` set value"
    by (simp add: untagged_decodes[OF n] convert_fields_keys)
  show "\<exists>kvs. live_convert_typed_value rl (VDictionary value) = Inr (VDictionary kvs) \<and>
             fst ` set kvs = fst ` set value"
    by (simp add: untagged_decodes[OF n] live_convert_fields_keys)
next
  assume n: "map_of value ''_type'' = None"
    and d: "distinct (map fst value) \<and> (\<forall>(k, v) \<in> set value. modelled (convert_typed_value rl v))"
  show "convert_typed_value rl (VDictionary value)
           = Inr (VDictionary (map (\<lambda>(k, v). (k, received (convert_typed_value rl v))) value))"
    using d by (intro untagged_recursive[OF n]) simp
next
  assume n: "map_of value ''_type'' = None"
    and d: "distinct (map fst value) \<and> (\<forall>(k, v) \<in> set value. modelled (live_convert_typed_value rl v))"
  show "live_convert_typed_value rl (VDictionary value)
           = Inr (VDictionary (map (\<lambda>(k, v). (k, received (live_convert_typed_value rl v))) value))"
    using d by (intro live_untagged_recursive[OF n]) simp
next
  fix t assume "map_of value ''_type'' = Some (VString t) \<and> t \<notin> set KNOWN_TYPES"
  then show "convert_typed_value rl (VDictionary value) = Inr (VDictionary value)"
    by (intro unknown_type_unchanged[of _ t]) auto
next
  fix t assume "map_of value ''_type'' = Some (VString t) \<and> t \<notin> set KNOWN_TYPES"
  then show "live_convert_typed_value rl (VDictionary value) = Inr (VDictionary value)"
    by (intro live_unknown_type_unchanged[of _ t]) auto
qed (rule nested_xy_unchanged)+

text \<open>
  A mapping of an unregistered type is returned as it is; a plain mapping with a typed
  position and a number decodes field by field.
\<close>

theorem decode_untagged_or_unknown_witness:
  "map_of [(''_type'', VString ''Quaternion''), (''w'', VFloat 1)] ''_type'' = Some (VString ''Quaternion'') \<and>
   ''Quaternion'' \<notin> set KNOWN_TYPES \<and>
   convert_typed_value no_files (VDictionary [(''_type'', VString ''Quaternion''), (''w'', VFloat 1)])
     = Inr (VDictionary [(''_type'', VString ''Quaternion''), (''w'', VFloat 1)]) \<and>
   live_convert_typed_value no_files (VDictionary [(''_type'', VString ''Quaternion''), (''w'', VFloat 1)])
     = Inr (VDictionary [(''_type'', VString ''Quaternion''), (''w'', VFloat 1)]) \<and>
   map_of [(''pos'', VDictionary [(''_type'', VString ''Vector2''), (''x'', VFloat 3)]), (''n'', VFloat 7)] ''_type'' = None \<and>
   convert_typed_value no_files
       (VDictionary [(''pos'', VDictionary [(''_type'', VString ''Vector2''), (''x'', VFloat 3)]), (''n'', VFloat 7)])
     = Inr (VDictionary [(''pos'', VVector2 3 0), (''n'', VFloat 7)])"
proof -
  let ?q = "[(''_type'', VString ''Quaternion''), (''w'', VFloat 1)]"
  let ?p = "[(''pos'', VDictionary [(''_type'', VString ''Vector2''), (''x'', VFloat 3)]), (''n'', VFloat 7)]"
  have q: "map_of ?q ''_type'' = Some (VString ''Quaternion'') \<and> ''Quaternion'' \<notin> set KNOWN_TYPES"
    by (simp add: KNOWN_TYPES_def)
  have p: "map_of ?p ''_type'' = None" by simp
  have f3: "float32 3 = Some 3" by code_simp
  have v: "convert_typed_value no_files (VDictionary [(''_type'', VString ''Vector2''), (''x'', VFloat 3)])
      = Inr (VVector2 3 0)"
    by (simp add: convert_dict typed_Vector2_def Vector2_def dict_get_def as_real_t_def as_float_def
        f3 float32_def[of 0])
  have pd: "distinct (map fst ?p) \<and> (\<forall>(k, v) \<in> set ?p. modelled (convert_typed_value no_files v))"
    by (simp add: v convert_other modelled_def)
  from decode_untagged_or_unknown[of ?q no_files, THEN conjunct2, THEN conjunct1, rule_format, OF q]
  have a: "convert_typed_value no_files (VDictionary ?q) = Inr (VDictionary ?q)"
    and b: "live_convert_typed_value no_files (VDictionary ?q) = Inr (VDictionary ?q)" by simp_all
  from decode_untagged_or_unknown[of ?p no_files, THEN conjunct1, rule_format, OF p,
      THEN conjunct2, THEN conjunct2, THEN conjunct1, THEN mp, OF pd]
  have c: "convert_typed_value no_files (VDictionary ?p) = Inr (VDictionary [(''pos'', VVector2 3 0), (''n'', VFloat 7)])"
    by (simp add: v convert_other received_def)
  show ?thesis using q p a b c by simp
qed

text \<open>
  C6. The mapping \<open>{"_type": 5}\<close> has a discriminator that no arm recognises. The offline
  decoder reaches its last arm, written to return the mapping as it is, but the arm first
  appends the discriminator to a string with \<open>+\<close>: for a number that is a script error, the
  call is stopped and its caller receives null, not the mapping. Inside a plain mapping the
  field decodes to null. The live decoder is stopped on the same mapping where it assigns
  the discriminator to a variable declared \<open>String\<close>.
\<close>

theorem non_string_discriminator_stops_decode:
  "map_of [(''_type'', VFloat 5)] ''_type'' = Some (VFloat 5) \<and>
   convert_typed_value no_files (VDictionary [(''_type'', VFloat 5)])
     = Inl (Invalid_operands ''String + non-String'') \<and>
   received (convert_typed_value no_files (VDictionary [(''_type'', VFloat 5)])) = VNil \<and>
   convert_typed_value no_files (VDictionary [(''_type'', VFloat 5)])
     \<noteq> Inr (VDictionary [(''_type'', VFloat 5)]) \<and>
   convert_typed_value no_files
       (VDictionary [(''a'', VDictionary [(''_type'', VFloat 5)]), (''b'', VFloat 1)])
     = Inr (VDictionary [(''a'', VNil), (''b'', VFloat 1)]) \<and>
   live_convert_typed_value no_files (VDictionary [(''_type'', VFloat 5)])
     = Inl (Invalid_assignment ''String expected'')"
  by (simp add: convert_dict live_convert_dict convert_other as_String_def received_def)

text \<open>
  C8. \<open>looksLikeVector2\<close> holds exactly of the plain objects with a number under \<open>x\<close>, a
  number under \<open>y\<close>, no key \<open>z\<close> and no key \<open>_type\<close> (other keys are not looked at);
  \<open>autoDetectVector2\<close> turns such an object into the typed form with these two numbers and
  returns every other value as it is. Decoding does not promote: a dictionary without the key \<open>_type\<close> decodes to a
  dictionary with the same keys, and the plain dictionary with \<open>x\<close> and \<open>y\<close> is returned
  unchanged by both decoders.
\<close>

theorem auto_detect_vector2:
  "(looksLikeVector2 v \<longleftrightarrow>
      (\<exists>kvs x y. v = JObj kvs \<and> own_prop kvs ''x'' = Some (JNum x) \<and> own_prop kvs ''y'' = Some (JNum y) \<and>
                 own_prop kvs ''z'' = None \<and> own_prop kvs ''_type'' = None)) \<and>
   (\<forall>kvs x y. v = JObj kvs \<and> own_prop kvs ''x'' = Some (JNum x) \<and> own_prop kvs ''y'' = Some (JNum y) \<and>
               own_prop kvs ''z'' = None \<and> own_prop kvs ''_type'' = None \<longrightarrow>
      autoDetectVector2 v = JObj [(''_type'', JStr ''Vector2''), (''x'', JNum x), (''y'', JNum y)]) \<and>
   (\<not> looksLikeVector2 v \<longrightarrow> autoDetectVector2 v = v) \<and>
   (map_of value ''_type'' = None \<longrightarrow>
      (\<forall>r. convert_typed_value rl (VDictionary value) = Inr r \<longrightarrow>
           (\<exists>kvs. r = VDictionary kvs \<and> fst ` set kvs = fst ` set value)) \<and>
      (\<forall>r. live_convert_typed_value rl (VDictionary value) = Inr r \<longrightarrow>
           (\<exists>kvs. r = VDictionary kvs \<and> fst ` set kvs = fst ` set value))) \<and>
   convert_typed_value rl (VDictionary [(''x'', VFloat 1), (''y'', VFloat 2)])
     = Inr (VDictionary [(''x'', VFloat 1), (''y'', VFloat 2)]) \<and>
   live_convert_typed_value rl (VDictionary [(''x'', VFloat 1), (''y'', VFloat 2)])
     = Inr (VDictionary [(''x'', VFloat 1), (''y'', VFloat 2)])"
proof (intro conjI impI allI)
  show "looksLikeVector2 v \<longleftrightarrow>
      (\<exists>kvs x y. v = JObj kvs \<and> own_prop kvs ''x'' = Some (JNum x) \<and> own_prop kvs ''y'' = Some (JNum y) \<and>
                 own_prop kvs ''z'' = None \<and> own_prop kvs ''_type'' = None)"
  proof (cases v)
    case (JObj kvs)
    have n: "is_number m \<longleftrightarrow> (\<exists>x. m = Some (JNum x))" for m
      by (cases m rule: is_number.cases) auto
    show ?thesis by (auto simp: JObj looksLikeVector2_def n)
  qed (simp_all add: looksLikeVector2_def)
next
  fix kvs x y
  assume "v = JObj kvs \<and> own_prop kvs ''x'' = Some (JNum x) \<and> own_prop kvs ''y'' = Some (JNum y) \<and>
               own_prop kvs ''z'' = None \<and> own_prop kvs ''_type'' = None"
  then show "autoDetectVector2 v = JObj [(''_type'', JStr ''Vector2''), (''x'', JNum x), (''y'', JNum y)]"
    by (simp add: autoDetectVector2_def looksLikeVector2_def)
next
  assume "\<not> looksLikeVector2 v"
  then show "autoDetectVector2 v = v" by (simp add: autoDetectVector2_def)
next
  fix r assume "map_of value ''_type'' = None" "convert_typed_value rl (VDictionary value) = Inr r"
  then show "\<exists>kvs. r = VDictionary kvs \<and> fst ` set kvs = fst ` set value"
    by (rule untagged_stays_dictionary)
next
  fix r assume "map_of value ''_type'' = None" "live_convert_typed_value rl (VDictionary value) = Inr r"
  then show "\<exists>kvs. r = VDictionary kvs \<and> fst ` set kvs = fst ` set value"
    by (rule live_untagged_stays_dictionary)
qed (rule plain_xy_unchanged)+

theorem auto_detect_vector2_witness:
  "looksLikeVector2 (JObj [(''x'', JNum 100), (''y'', JNum 200)]) \<and>
   autoDetectVector2 (JObj [(''x'', JNum 100), (''y'', JNum 200)])
     = JObj [(''_type'', JStr ''Vector2''), (''x'', JNum 100), (''y'', JNum 200)] \<and>
   \<not> looksLikeVector2 (JObj [(''x'', JNum 1), (''y'', JNum 2), (''z'', JNum 3)]) \<and>
   autoDetectVector2 (JObj [(''x'', JNum 1), (''y'', JNum 2), (''z'', JNum 3)])
     = JObj [(''x'', JNum 1), (''y'', JNum 2), (''z'', JNum 3)] \<and>
   \<not> looksLikeVector2 (JObj [(''x'', JStr ''1''), (''y'', JNum 2)]) \<and>
   autoDetectVector2 (JObj [(''x'', JStr ''1''), (''y'', JNum 2)]) = JObj [(''x'', JStr ''1''), (''y'', JNum 2)] \<and>
   autoDetectVector2 (JObj [(''x'', JNum 1), (''y'', JNum 2), (''name'', JStr ''spawn'')])
     = JObj [(''_type'', JStr ''Vector2''), (''x'', JNum 1), (''y'', JNum 2)] \<and>
   map_of [(''x'', VFloat 1), (''y'', VFloat 2)] ''_type'' = None \<and>
   (\<exists>kvs. convert_typed_value no_files (VDictionary [(''x'', VFloat 1), (''y'', VFloat 2)]) = Inr (VDictionary kvs))"
proof -
  let ?a = "JObj [(''x'', JNum 100), (''y'', JNum 200)]"
  let ?b = "JObj [(''x'', JNum 1), (''y'', JNum 2), (''z'', JNum 3)]"
  let ?c = "JObj [(''x'', JStr ''1''), (''y'', JNum 2)]"
  let ?xy = "[(''x'', VFloat 1), (''y'', VFloat 2)]"
  have la: "looksLikeVector2 ?a" and lb: "\<not> looksLikeVector2 ?b" and lc: "\<not> looksLikeVector2 ?c"
    by (simp_all add: looksLikeVector2_def own_prop_def)
  have ha: "?a = JObj [(''x'', JNum 100), (''y'', JNum 200)] \<and>
      own_prop [(''x'', JNum 100), (''y'', JNum 200)] ''x'' = Some (JNum 100) \<and>
      own_prop [(''x'', JNum 100), (''y'', JNum 200)] ''y'' = Some (JNum 200) \<and>
      own_prop [(''x'', JNum 100), (''y'', JNum 200)] ''z'' = None \<and>
      own_prop [(''x'', JNum 100), (''y'', JNum 200)] ''_type'' = None"
    by (simp add: own_prop_def)
  have n: "map_of ?xy ''_type'' = None" by simp
  note A = auto_detect_vector2[of ?a ?xy no_files]
  note B = auto_detect_vector2[of ?b ?xy no_files]
  note C = auto_detect_vector2[of ?c ?xy no_files]
  have 1: "autoDetectVector2 ?a = JObj [(''_type'', JStr ''Vector2''), (''x'', JNum 100), (''y'', JNum 200)]"
    using A[THEN conjunct2, THEN conjunct1, rule_format, OF ha] .
  have 2: "autoDetectVector2 ?b = ?b"
    using B[THEN conjunct2, THEN conjunct2, THEN conjunct1] lb by blast
  have 3: "autoDetectVector2 ?c = ?c"
    using C[THEN conjunct2, THEN conjunct2, THEN conjunct1] lc by blast
  have 4: "\<exists>kvs. convert_typed_value no_files (VDictionary ?xy) = Inr (VDictionary kvs)"
    using A[THEN conjunct2, THEN conjunct2, THEN conjunct2, THEN conjunct2, THEN conjunct1] by blast
  let ?d = "[(''x'', JNum 1), (''y'', JNum 2), (''name'', JStr ''spawn'')]"
  have hd: "JObj ?d = JObj ?d \<and> own_prop ?d ''x'' = Some (JNum 1) \<and> own_prop ?d ''y'' = Some (JNum 2) \<and>
      own_prop ?d ''z'' = None \<and> own_prop ?d ''_type'' = None"
    by (simp add: own_prop_def)
  have 5: "autoDetectVector2 (JObj ?d) = JObj [(''_type'', JStr ''Vector2''), (''x'', JNum 1), (''y'', JNum 2)]"
    using auto_detect_vector2[of "JObj ?d" ?xy no_files, THEN conjunct2, THEN conjunct1, rule_format, OF hd] .
  show ?thesis using la lb lc 1 2 3 4 5 n by blast
qed



lemma int32_0: "int32 0 = 0"
  by (simp add: int32_def)


lemma is_int32_range: "- (2 ^ 31) \<le> i \<Longrightarrow> i < 2 ^ 31 \<Longrightarrow> is_int32 i"
  unfolding is_int32_def int32_def by (rule signed_take_bit_int_eq_self)





































section \<open>Properties of the dispatcher\<close>

lemma handle_message_parse_error:
  "parse data = Inl problem \<Longrightarrow>
   handle_message parse render st peer data
     = (None, send_error st peer ''0'' (- 32700) (''Parse error: '' @ problem))"
  by (simp add: handle_message_def)

lemma handle_message_not_object:
  assumes "parse data = Inr v" "\<And>msg. v \<noteq> VDictionary msg"
  shows "handle_message parse render st peer data
     = (None, send_error st peer ''0'' (- 32600) ''Invalid request: expected object'')"
proof (cases v)
  case (VDictionary msg)
  with assms(2) show ?thesis by blast
qed (simp_all add: handle_message_def assms(1))

lemma handle_message_object:
  "parse data = Inr (VDictionary msg) \<Longrightarrow>
   handle_message parse render st peer data =
     (let rid = str render (dict_get msg ''id'' (VString ''0''))
      in case as_String (dict_get msg ''method'' (VString '''')) of
           Inl e \<Rightarrow> (Some e, st)
         | Inr meth \<Rightarrow>
             (let params = dict_get msg ''params'' (VDictionary [])
              in if meth = '''' then (None, send_error st peer rid (- 32600) ''Missing method'')
                 else case map_of (handlers st) meth of
                        None \<Rightarrow>
                          (None, send_error st peer rid (- 32601) (''Method not found: '' @ meth))
                      | Some handler \<Rightarrow>
                          (let (result, w) = handler params (world st);
                               st1 = st\<lparr> world := w \<rparr>
                           in case result of
                                VDictionary r \<Rightarrow>
                                  (case map_of r ''_deferred'' of
                                     None \<Rightarrow> (None, send_result st1 peer rid result)
                                   | Some (VSignal s) \<Rightarrow>
                                       (None, st1\<lparr> awaiting := awaiting st1 @ [(s, peer, rid)] \<rparr>)
                                   | Some _ \<Rightarrow> (Some (Invalid_assignment ''Signal expected''), st1))
                              | _ \<Rightarrow> (None, send_result st1 peer rid result))))"
  by (simp add: handle_message_def)

lemma handle_message_missing_method:
  assumes "parse data = Inr (VDictionary msg)"
    "map_of msg ''method'' = None \<or> map_of msg ''method'' = Some (VString '''')"
  shows "handle_message parse render st peer data
     = (None, send_error st peer (str render (dict_get msg ''id'' (VString ''0''))) (- 32600) ''Missing method'')"
  using assms(2) by (auto simp: handle_message_object[where parse = parse and data = data and msg = msg, OF assms(1)] dict_get_def as_String_def)

lemma handle_message_unknown_method:
  assumes "parse data = Inr (VDictionary msg)" "map_of msg ''method'' = Some (VString meth)"
    "meth \<noteq> ''''" "map_of (handlers st) meth = None"
  shows "handle_message parse render st peer data
     = (None, send_error st peer (str render (dict_get msg ''id'' (VString ''0''))) (- 32601)
               (''Method not found: '' @ meth))"
  using assms(2-) by (simp add: handle_message_object[where parse = parse and data = data and msg = msg, OF assms(1)] dict_get_def as_String_def)

lemma handle_message_call:
  assumes "parse data = Inr (VDictionary msg)" "map_of msg ''method'' = Some (VString meth)"
    "meth \<noteq> ''''" "map_of (handlers st) meth = Some handler"
    "handler (dict_get msg ''params'' (VDictionary [])) (world st) = (result, w)"
  shows "handle_message parse render st peer data =
     (case result of
        VDictionary r \<Rightarrow>
          (case map_of r ''_deferred'' of
             None \<Rightarrow> (None, send_result (st\<lparr> world := w \<rparr>) peer (str render (dict_get msg ''id'' (VString ''0''))) result)
           | Some (VSignal s) \<Rightarrow>
               (None, st\<lparr> world := w, awaiting := awaiting st @ [(s, peer, str render (dict_get msg ''id'' (VString ''0'')))] \<rparr>)
           | Some _ \<Rightarrow> (Some (Invalid_assignment ''Signal expected''), st\<lparr> world := w \<rparr>))
      | _ \<Rightarrow> (None, send_result (st\<lparr> world := w \<rparr>) peer (str render (dict_get msg ''id'' (VString ''0''))) result))"
  using assms(2-)
  by (simp add: handle_message_object[where parse = parse and data = data and msg = msg, OF assms(1)] dict_get_def[of msg "''method''"] as_String_def Let_def
      split: variant.splits option.splits)

lemma demo_handlers:
  "map_of (handlers demo_server) ''does_not_exist'' = None"
  "map_of (handlers demo_server) ''ping'' = Some handle_ping"
  "map_of (handlers demo_server) ''capture_screenshot'' = Some (screenshot_handle 0)"
  "map_of (handlers demo_server) ''set_node_property'' = Some (as_handler handle_set_property)"
  "map_of (handlers demo_server) ''send_input_event''
     = Some (as_handler (handle_input_event (\<lambda>kind params w. Inr (VDictionary [(''status'', VString ''ok'')], w))))"
  by (simp_all add: demo_server_def ready_def registered_methods_def demo_callable_def)

lemma demo_server_fields:
  "world demo_server = demo_scene" "sent_text demo_server = []" "awaiting demo_server = []"
  by (simp_all add: demo_server_def ready_def)

text \<open>
  C3 (as amended). The reserved codes: a frame that does not parse is answered with id "0"
  and code -32700; a parsed value that is not an object with id "0" and code -32600; an
  object whose method is absent or the empty string with code -32600; an object whose method
  is a non-empty string outside the registry with code -32601. The answer is one frame, to
  the peer that sent the request, of the shape \<open>{id, error: {code, message}}\<close>.
\<close>

theorem dispatcher_error_codes:
  "(\<forall>problem. parse data = Inl problem \<longrightarrow>
      handle_message parse render st peer data
        = (None, send_error st peer ''0'' (- 32700) (''Parse error: '' @ problem))) \<and>
   (\<forall>v. parse data = Inr v \<and> (\<forall>msg. v \<noteq> VDictionary msg) \<longrightarrow>
      handle_message parse render st peer data
        = (None, send_error st peer ''0'' (- 32600) ''Invalid request: expected object'')) \<and>
   (\<forall>msg. parse data = Inr (VDictionary msg) \<and>
          (map_of msg ''method'' = None \<or> map_of msg ''method'' = Some (VString '''')) \<longrightarrow>
      handle_message parse render st peer data
        = (None, send_error st peer (str render (dict_get msg ''id'' (VString ''0''))) (- 32600)
                  ''Missing method'')) \<and>
   (\<forall>msg meth. parse data = Inr (VDictionary msg) \<and> map_of msg ''method'' = Some (VString meth) \<and>
          meth \<noteq> '''' \<and> map_of (handlers st) meth = None \<longrightarrow>
      handle_message parse render st peer data
        = (None, send_error st peer (str render (dict_get msg ''id'' (VString ''0''))) (- 32601)
                  (''Method not found: '' @ meth))) \<and>
   (\<forall>rid code message.
      send_error st peer rid code message
        = st\<lparr> sent_text := sent_text st @
                [(peer, VDictionary [(''id'', VString rid),
                                     (''error'', VDictionary [(''code'', VInt code),
                                                              (''message'', VString message)])])] \<rparr>)"
proof (intro conjI allI impI)
  fix problem assume "parse data = Inl problem"
  then show "handle_message parse render st peer data
        = (None, send_error st peer ''0'' (- 32700) (''Parse error: '' @ problem))"
    by (rule handle_message_parse_error)
next
  fix v assume "parse data = Inr v \<and> (\<forall>msg. v \<noteq> VDictionary msg)"
  then show "handle_message parse render st peer data
        = (None, send_error st peer ''0'' (- 32600) ''Invalid request: expected object'')"
    by (intro handle_message_not_object) auto
next
  fix msg assume "parse data = Inr (VDictionary msg) \<and>
          (map_of msg ''method'' = None \<or> map_of msg ''method'' = Some (VString ''''))"
  then show "handle_message parse render st peer data
        = (None, send_error st peer (str render (dict_get msg ''id'' (VString ''0''))) (- 32600)
                  ''Missing method'')"
    by (intro handle_message_missing_method) auto
next
  fix msg meth assume "parse data = Inr (VDictionary msg) \<and> map_of msg ''method'' = Some (VString meth) \<and>
          meth \<noteq> '''' \<and> map_of (handlers st) meth = None"
  then show "handle_message parse render st peer data
        = (None, send_error st peer (str render (dict_get msg ''id'' (VString ''0''))) (- 32601)
                  (''Method not found: '' @ meth))"
    by (intro handle_message_unknown_method) auto
qed (simp add: send_error_def)

text \<open>
  The frame \<open>{"id":"5","method":"does_not_exist","params":{}}\<close> is answered with
  \<open>{"id":"5","error":{"code":-32601,"message":"Method not found: does_not_exist"}}\<close>, and
  text that is not JSON with id "0" and code -32700.
\<close>

theorem dispatcher_error_codes_witness:
  "demo_parse ''unknown''
     = Inr (VDictionary [(''id'', VString ''5''), (''method'', VString ''does_not_exist''),
                         (''params'', VDictionary [])]) \<and>
   map_of (handlers demo_server) ''does_not_exist'' = None \<and>
   sent_text (snd (handle_message demo_parse demo_render demo_server 3 ''unknown''))
     = [(3, VDictionary [(''id'', VString ''5''),
                         (''error'', VDictionary [(''code'', VInt (- 32601)),
                                                  (''message'', VString ''Method not found: does_not_exist'')])])] \<and>
   demo_parse ''{not json'' = Inl ''Unexpected character'' \<and>
   sent_text (snd (handle_message demo_parse demo_render demo_server 3 ''{not json''))
     = [(3, VDictionary [(''id'', VString ''0''),
                         (''error'', VDictionary [(''code'', VInt (- 32700)),
                                                  (''message'', VString ''Parse error: Unexpected character'')])])]"
proof -
  let ?msg = "[(''id'', VString ''5''), (''method'', VString ''does_not_exist''), (''params'', VDictionary [])]"
  have u: "demo_parse ''unknown'' = Inr (VDictionary ?msg)" by (simp add: demo_parse_def)
  have h: "demo_parse ''unknown'' = Inr (VDictionary ?msg) \<and> map_of ?msg ''method'' = Some (VString ''does_not_exist'') \<and>
      ''does_not_exist'' \<noteq> '''' \<and> map_of (handlers demo_server) ''does_not_exist'' = None"
    by (simp add: demo_parse_def demo_handlers)
  have o: "demo_parse ''{not json'' = Inl ''Unexpected character''" by (simp add: demo_parse_def)
  note T = dispatcher_error_codes[of demo_parse _ demo_render demo_server 3]
  have 1: "handle_message demo_parse demo_render demo_server 3 ''unknown''
      = (None, send_error demo_server 3 (str demo_render (dict_get ?msg ''id'' (VString ''0''))) (- 32601)
                  (''Method not found: '' @ ''does_not_exist''))"
    using T[of "''unknown''", THEN conjunct2, THEN conjunct2, THEN conjunct2, THEN conjunct1, rule_format, OF h] .
  have 2: "handle_message demo_parse demo_render demo_server 3 ''{not json''
      = (None, send_error demo_server 3 ''0'' (- 32700) (''Parse error: '' @ ''Unexpected character''))"
    using T[of "''{not json''", THEN conjunct1, rule_format, OF o] .
  show ?thesis
    using u o h unfolding 1 2
    by (simp add: send_error_def demo_server_fields str_def dict_get_def)
qed

text \<open>
  A request whose method is the number 5 is not answered at all: the assignment to
  \<open>var method: String\<close> stops the call before any response is sent.
\<close>

theorem dispatcher_error_codes_counterexample:
  "demo_parse ''numeric method'' = Inr (VDictionary [(''id'', VString ''6''), (''method'', VFloat 5)]) \<and>
   handle_message demo_parse demo_render demo_server 3 ''numeric method''
     = (Some (Invalid_assignment ''String expected''), demo_server) \<and>
   sent_text (snd (handle_message demo_parse demo_render demo_server 3 ''numeric method'')) = []"
  by (simp add: demo_parse_def handle_message_def dict_get_def as_String_def demo_server_fields)

lemma response_id_frames [simp]:
  "response_id (VDictionary [(''id'', VString rid), (''result'', result)]) = Some rid"
  "response_id (VDictionary [(''id'', VString rid), (''error'', e)]) = Some rid"
  by (simp_all add: response_id_def)

lemma send_fields [simp]:
  "handlers (send_result st peer rid result) = handlers st"
  "world (send_result st peer rid result) = world st"
  "awaiting (send_result st peer rid result) = awaiting st"
  "sent_text (send_result st peer rid result)
     = sent_text st @ [(peer, VDictionary [(''id'', VString rid), (''result'', result)])]"
  "handlers (send_error st peer rid code message) = handlers st"
  "world (send_error st peer rid code message) = world st"
  "awaiting (send_error st peer rid code message) = awaiting st"
  "sent_text (send_error st peer rid code message)
     = sent_text st @ [(peer, VDictionary [(''id'', VString rid),
                         (''error'', VDictionary [(''code'', VInt code), (''message'', VString message)])])]"
  by (simp_all add: send_result_def send_error_def)

text \<open>
  What one call of \<open>_handle_message\<close> can do to the server, whatever the frame: the registry
  stays, suspended calls stay (at most one is added), and every frame sent goes to the
  sender and carries a string id.
\<close>

lemma handle_message_effect:
  "handlers (snd (handle_message parse render st peer data)) = handlers st \<and>
   (\<exists>ext. awaiting (snd (handle_message parse render st peer data)) = awaiting st @ ext) \<and>
   (\<exists>new. sent_text (snd (handle_message parse render st peer data)) = sent_text st @ new \<and>
          (\<forall>f \<in> set new. fst f = peer \<and> (\<exists>rid. response_id (snd f) = Some rid)))"
  by (simp add: handle_message_def Let_def split: sum.split variant.split option.split prod.split)

lemma handle_message_object_effect:
  assumes "parse data = Inr (VDictionary msg)"
  shows "\<exists>new ext. sent_text (snd (handle_message parse render st peer data)) = sent_text st @ new \<and>
          awaiting (snd (handle_message parse render st peer data)) = awaiting st @ ext \<and>
          (\<forall>f \<in> set new. fst f = peer \<and>
               response_id (snd f) = Some (str render (dict_get msg ''id'' (VString ''0'')))) \<and>
          (\<forall>c \<in> set ext. snd c = (peer, str render (dict_get msg ''id'' (VString ''0''))))"
  using assms
  by (simp add: handle_message_def Let_def split: sum.split variant.split option.split prod.split)

lemma resume_awaiting_fields:
  "handlers (resume_awaiting st payload cs) = handlers st"
  "world (resume_awaiting st payload cs) = world st"
  "awaiting (resume_awaiting st payload cs) = awaiting st"
  "sent_text (resume_awaiting st payload cs)
     = sent_text st @ map (\<lambda>c. (fst (snd c), VDictionary [(''id'', VString (snd (snd c))), (''result'', payload)])) cs"
  by (induction st payload cs rule: resume_awaiting.induct) simp_all

lemma signal_emitted_fields:
  "handlers (signal_emitted st s payload) = handlers st"
  "world (signal_emitted st s payload) = world st"
  "awaiting (signal_emitted st s payload) = filter (\<lambda>c. fst c \<noteq> s) (awaiting st)"
  "sent_text (signal_emitted st s payload)
     = sent_text st @ map (\<lambda>c. (fst (snd c), VDictionary [(''id'', VString (snd (snd c))), (''result'', payload)]))
                         (filter (\<lambda>c. fst c = s) (awaiting st))"
  by (simp_all add: signal_emitted_def resume_awaiting_fields)

lemma handle_ping_demo:
  "handle_ping ps (world demo_server)
     = (VDictionary [(''status'', VString ''ok''), (''server'', VString ''mechanical-turk-mcp''),
                     (''version'', VString ''0.1.0'')], world demo_server)"
  by (simp add: handle_ping_def)

lemma decimal_5: "decimal 5 = ''5''"
  by code_simp

lemma engine_render_whole:
  "r = of_int \<lfloor>r\<rfloor> \<Longrightarrow> \<bar>r\<bar> < 10 ^ 15 \<Longrightarrow>
   engine_render style other (VFloat r)
     = decimal \<lfloor>r\<rfloor> @ (case style of Digits_only \<Rightarrow> [] | Trailing_zero \<Rightarrow> ''.0'')"
  by (simp add: engine_render_def)

lemma engine_render_5:
  "engine_render Trailing_zero other (VFloat 5) = ''5.0''"
  "engine_render Digits_only other (VFloat 5) = ''5''"
  using engine_render_whole[of 5 Trailing_zero other] engine_render_whole[of 5 Digits_only other]
  by (simp_all add: decimal_5)

text \<open>
  C10 (as amended). Every frame that a call of \<open>_handle_message\<close> sends carries a string
  under \<open>id\<close>. When the inbound frame parsed to an object, that string is \<open>str\<close> of the
  request's id, with "0" standing in for an absent id; it is also the id under which a
  deferred call is suspended, and so the id of the frame sent when its signal fires. \<open>str\<close>
  leaves a string as it is. A numeric id reaches \<open>str\<close> as a \<open>float\<close>, and for a whole
  number it is answered under the digits followed by \<open>.0\<close> on Godot 4.4 and later, under
  the digits alone before: the id 5 under "5.0", or under "5".
\<close>

theorem response_id_is_string:
  "(\<exists>new. sent_text (snd (handle_message parse render st peer data)) = sent_text st @ new \<and>
          (\<forall>f \<in> set new. \<exists>rid. response_id (snd f) = Some rid)) \<and>
   (\<forall>msg. parse data = Inr (VDictionary msg) \<longrightarrow>
      (\<exists>new ext. sent_text (snd (handle_message parse render st peer data)) = sent_text st @ new \<and>
          awaiting (snd (handle_message parse render st peer data)) = awaiting st @ ext \<and>
          (\<forall>f \<in> set new. fst f = peer \<and>
               response_id (snd f) = Some (str render (dict_get msg ''id'' (VString ''0'')))) \<and>
          (\<forall>c \<in> set ext. snd c = (peer, str render (dict_get msg ''id'' (VString ''0'')))))) \<and>
   (\<forall>msg. map_of msg ''id'' = None \<longrightarrow> str render (dict_get msg ''id'' (VString ''0'')) = ''0'') \<and>
   (\<forall>msg s. map_of msg ''id'' = Some (VString s) \<longrightarrow> str render (dict_get msg ''id'' (VString ''0'')) = s) \<and>
   (\<forall>msg r style other.
      map_of msg ''id'' = Some (VFloat r) \<and> r = of_int \<lfloor>r\<rfloor> \<and> \<bar>r\<bar> < 10 ^ 15 \<longrightarrow>
        str (engine_render style other) (dict_get msg ''id'' (VString ''0''))
          = decimal \<lfloor>r\<rfloor> @ (case style of Digits_only \<Rightarrow> [] | Trailing_zero \<Rightarrow> ''.0'')) \<and>
   (\<forall>msg other.
      map_of msg ''id'' = Some (VFloat 5) \<longrightarrow>
        str (engine_render Trailing_zero other) (dict_get msg ''id'' (VString ''0'')) = ''5.0'' \<and>
        str (engine_render Digits_only other) (dict_get msg ''id'' (VString ''0'')) = ''5'') \<and>
   (\<forall>s payload.
      sent_text (signal_emitted st s payload)
        = sent_text st @ map (\<lambda>c. (fst (snd c), VDictionary [(''id'', VString (snd (snd c))), (''result'', payload)]))
                            (filter (\<lambda>c. fst c = s) (awaiting st)))"
proof (intro conjI allI impI)
  show "\<exists>new. sent_text (snd (handle_message parse render st peer data)) = sent_text st @ new \<and>
          (\<forall>f \<in> set new. \<exists>rid. response_id (snd f) = Some rid)"
    using handle_message_effect[of parse render st peer data] by blast
next
  fix msg assume "parse data = Inr (VDictionary msg)"
  then show "\<exists>new ext. sent_text (snd (handle_message parse render st peer data)) = sent_text st @ new \<and>
          awaiting (snd (handle_message parse render st peer data)) = awaiting st @ ext \<and>
          (\<forall>f \<in> set new. fst f = peer \<and>
               response_id (snd f) = Some (str render (dict_get msg ''id'' (VString ''0'')))) \<and>
          (\<forall>c \<in> set ext. snd c = (peer, str render (dict_get msg ''id'' (VString ''0''))))"
    by (rule handle_message_object_effect)
next
  fix msg r style other
  assume "map_of msg ''id'' = Some (VFloat r) \<and> r = of_int \<lfloor>r\<rfloor> \<and> \<bar>r\<bar> < 10 ^ 15"
  then show "str (engine_render style other) (dict_get msg ''id'' (VString ''0''))
          = decimal \<lfloor>r\<rfloor> @ (case style of Digits_only \<Rightarrow> [] | Trailing_zero \<Rightarrow> ''.0'')"
    using engine_render_whole[of r style other] by (simp add: str_def dict_get_def)
next
  fix msg other
  assume "map_of msg ''id'' = Some (VFloat 5)"
  then show "str (engine_render Trailing_zero other) (dict_get msg ''id'' (VString ''0'')) = ''5.0''"
    "str (engine_render Digits_only other) (dict_get msg ''id'' (VString ''0'')) = ''5''"
    by (simp_all add: str_def dict_get_def engine_render_5)
qed (auto simp: str_def dict_get_def signal_emitted_fields)

text \<open>
  A ping with the numeric id 5 is answered under "5.0" with the rendering of Godot 4.4 and
  under "5" with the earlier one, and a ping without id under "0".
\<close>

theorem response_id_is_string_witness:
  "demo_parse ''ping 5'' = Inr (VDictionary [(''id'', VFloat 5), (''method'', VString ''ping'')]) \<and>
   map_of [(''id'', VFloat 5), (''method'', VString ''ping'')] ''id'' = Some (VFloat 5) \<and>
   map (response_id \<circ> snd)
       (sent_text (snd (handle_message demo_parse (engine_render Trailing_zero (\<lambda>v. ''?'')) demo_server 3 ''ping 5'')))
     = [Some ''5.0''] \<and>
   map (response_id \<circ> snd)
       (sent_text (snd (handle_message demo_parse (engine_render Digits_only (\<lambda>v. ''?'')) demo_server 3 ''ping 5'')))
     = [Some ''5''] \<and>
   map_of [(''method'', VString ''ping'')] ''id'' = None \<and>
   map (response_id \<circ> snd)
       (sent_text (snd (handle_message demo_parse (engine_render Trailing_zero (\<lambda>v. ''?'')) demo_server 3 ''ping'')))
     = [Some ''0'']"
proof -
  let ?m5 = "[(''id'', VFloat 5), (''method'', VString ''ping'')]"
  let ?m0 = "[(''method'', VString ''ping'')]"
  let ?new = "engine_render Trailing_zero (\<lambda>v. ''?'')"
  let ?old = "engine_render Digits_only (\<lambda>v. ''?'')"
  let ?pong = "VDictionary [(''status'', VString ''ok''), (''server'', VString ''mechanical-turk-mcp''),
                            (''version'', VString ''0.1.0'')]"
  have p5: "demo_parse ''ping 5'' = Inr (VDictionary ?m5)" and p0: "demo_parse ''ping'' = Inr (VDictionary ?m0)"
    by (simp_all add: demo_parse_def)
  have h5: "map_of ?m5 ''id'' = Some (VFloat 5)" by simp
  have h0: "map_of ?m0 ''id'' = None" by simp
  have s5: "str ?new (dict_get ?m5 ''id'' (VString ''0'')) = ''5.0''"
    "str ?old (dict_get ?m5 ''id'' (VString ''0'')) = ''5''"
    using response_id_is_string[of demo_parse ?new demo_server 3 "''ping 5''",
            THEN conjunct2, THEN conjunct2, THEN conjunct2, THEN conjunct2, THEN conjunct2, THEN conjunct1,
            rule_format, OF h5, of "\<lambda>v. ''?''"]
    by simp_all
  have s0: "str ?new (dict_get ?m0 ''id'' (VString ''0'')) = ''0''"
    using response_id_is_string[of demo_parse ?new demo_server 3 "''ping''",
            THEN conjunct2, THEN conjunct2, THEN conjunct1, rule_format, OF h0] .
  have c: "handle_message demo_parse render demo_server 3 ''ping 5''
      = (None, send_result (demo_server\<lparr> world := world demo_server \<rparr>) 3
                 (str render (dict_get ?m5 ''id'' (VString ''0''))) ?pong)" for render
    using handle_message_call[where parse = demo_parse and data = "''ping 5''" and msg = ?m5 and st = demo_server
        and meth = "''ping''" and handler = handle_ping and render = render and peer = 3,
        OF p5 _ _ demo_handlers(2) handle_ping_demo]
    by simp
  have c0: "handle_message demo_parse ?new demo_server 3 ''ping''
      = (None, send_result (demo_server\<lparr> world := world demo_server \<rparr>) 3
                 (str ?new (dict_get ?m0 ''id'' (VString ''0''))) ?pong)"
    using handle_message_call[where parse = demo_parse and data = "''ping''" and msg = ?m0 and st = demo_server
        and meth = "''ping''" and handler = handle_ping and render = ?new and peer = 3,
        OF p0 _ _ demo_handlers(2) handle_ping_demo]
    by simp
  show ?thesis
    using p5 h5 h0 unfolding c c0 s5 s0 by (simp add: demo_server_fields)
qed

text \<open>
  With the rendering of Godot 4.4 the request with the numeric id 5 is not answered with
  id "5": its response carries "5.0".
\<close>

theorem response_id_is_string_counterexample:
  "demo_parse ''ping 5'' = Inr (VDictionary [(''id'', VFloat 5), (''method'', VString ''ping'')]) \<and>
   sent_text (snd (handle_message demo_parse demo_render demo_server 3 ''ping 5''))
     = [(3, VDictionary [(''id'', VString ''5.0''),
                         (''result'', VDictionary [(''status'', VString ''ok''),
                                                   (''server'', VString ''mechanical-turk-mcp''),
                                                   (''version'', VString ''0.1.0'')])])] \<and>
   map (response_id \<circ> snd) (sent_text (snd (handle_message demo_parse demo_render demo_server 3 ''ping 5'')))
     \<noteq> [Some ''5'']"
proof -
  let ?m5 = "[(''id'', VFloat 5), (''method'', VString ''ping'')]"
  have p5: "demo_parse ''ping 5'' = Inr (VDictionary ?m5)" by (simp add: demo_parse_def)
  have c: "handle_message demo_parse demo_render demo_server 3 ''ping 5''
      = (None, send_result (demo_server\<lparr> world := world demo_server \<rparr>) 3
                 (str demo_render (dict_get ?m5 ''id'' (VString ''0'')))
                 (VDictionary [(''status'', VString ''ok''), (''server'', VString ''mechanical-turk-mcp''),
                               (''version'', VString ''0.1.0'')]))"
    using handle_message_call[where parse = demo_parse and data = "''ping 5''" and msg = ?m5 and st = demo_server
        and meth = "''ping''" and handler = handle_ping and render = demo_render and peer = 3,
        OF p5 _ _ demo_handlers(2) handle_ping_demo]
    by simp
  have s: "str demo_render (dict_get ?m5 ''id'' (VString ''0'')) = ''5.0''"
    by (simp add: str_def dict_get_def demo_render_def engine_render_5)
  show ?thesis using p5 unfolding c s by (simp add: demo_server_fields)
qed

lemma stays_suspended:
  assumes "(s, p, rid) \<in> set (awaiting st)" "\<And>payload. Signal_fired s payload \<notin> set events"
  shows "(s, p, rid) \<in> set (awaiting (run parse render st events))"
  using assms unfolding run_def
proof (induction events arbitrary: st)
  case Nil
  then show ?case by simp
next
  case (Cons e events)
  have "(s, p, rid) \<in> set (awaiting (step parse render st e))"
  proof (cases e)
    case (Packet peer data)
    obtain ext where "awaiting (snd (handle_message parse render st peer data)) = awaiting st @ ext"
      using handle_message_effect[of parse render st peer data] by blast
    with Cons.prems(1) show ?thesis by (simp add: Packet)
  next
    case (Signal_fired s' payload)
    with Cons.prems(2)[of payload] have "s' \<noteq> s" by auto
    with Cons.prems(1) show ?thesis by (simp add: Signal_fired signal_emitted_fields)
  qed
  moreover have "\<And>payload. Signal_fired s payload \<notin> set events"
    using Cons.prems(2) by auto
  ultimately show ?case using Cons.IH by simp
qed

text \<open>
  C4. A registered handler returns a dictionary with the key \<open>_deferred\<close> holding a signal:
  the call sends nothing and is suspended on that signal. Any other result is sent at once as
  \<open>{id, result}\<close>. A suspended call stays suspended while other frames are handled and
  while other signals fire; when its signal fires with a value, \<open>{id, result: value}\<close> is
  sent to its peer and the call is no longer suspended.
\<close>

theorem deferred_dispatch:
  "(\<forall>msg meth handler r w s.
      parse data = Inr (VDictionary msg) \<and> map_of msg ''method'' = Some (VString meth) \<and> meth \<noteq> '''' \<and>
      map_of (handlers st) meth = Some handler \<and>
      handler (dict_get msg ''params'' (VDictionary [])) (world st) = (VDictionary r, w) \<and>
      map_of r ''_deferred'' = Some (VSignal s) \<longrightarrow>
        handle_message parse render st peer data
          = (None, st\<lparr> world := w,
                        awaiting := awaiting st @ [(s, peer, str render (dict_get msg ''id'' (VString ''0'')))] \<rparr>) \<and>
        sent_text (snd (handle_message parse render st peer data)) = sent_text st) \<and>
   (\<forall>msg meth handler result w.
      parse data = Inr (VDictionary msg) \<and> map_of msg ''method'' = Some (VString meth) \<and> meth \<noteq> '''' \<and>
      map_of (handlers st) meth = Some handler \<and>
      handler (dict_get msg ''params'' (VDictionary [])) (world st) = (result, w) \<and>
      (\<forall>r. result = VDictionary r \<longrightarrow> map_of r ''_deferred'' = None) \<longrightarrow>
        handle_message parse render st peer data
          = (None, st\<lparr> world := w,
                        sent_text := sent_text st @
                          [(peer, VDictionary [(''id'', VString (str render (dict_get msg ''id'' (VString ''0'')))),
                                               (''result'', result)])] \<rparr>)) \<and>
   (\<exists>ext. awaiting (snd (handle_message parse render st peer data)) = awaiting st @ ext) \<and>
   (\<forall>s payload.
      awaiting (signal_emitted st s payload) = filter (\<lambda>c. fst c \<noteq> s) (awaiting st) \<and>
      sent_text (signal_emitted st s payload)
        = sent_text st @ map (\<lambda>c. (fst (snd c), VDictionary [(''id'', VString (snd (snd c))), (''result'', payload)]))
                            (filter (\<lambda>c. fst c = s) (awaiting st))) \<and>
   (\<forall>s p rid events.
      (s, p, rid) \<in> set (awaiting st) \<and> (\<forall>payload. Signal_fired s payload \<notin> set events) \<longrightarrow>
        (s, p, rid) \<in> set (awaiting (run parse render st events))) \<and>
   (\<forall>s p rid payload.
      (s, p, rid) \<in> set (awaiting st) \<longrightarrow>
        (p, VDictionary [(''id'', VString rid), (''result'', payload)])
          \<in> set (sent_text (signal_emitted st s payload)) \<and>
        (s, p, rid) \<notin> set (awaiting (signal_emitted st s payload)))"
proof (intro conjI allI impI)
  fix s p rid events
  assume "(s, p, rid) \<in> set (awaiting st) \<and> (\<forall>payload. Signal_fired s payload \<notin> set events)"
  then show "(s, p, rid) \<in> set (awaiting (run parse render st events))"
    by (intro stays_suspended) auto
next
  fix s p rid payload
  assume a: "(s, p, rid) \<in> set (awaiting st)"
  then show "(p, VDictionary [(''id'', VString rid), (''result'', payload)])
          \<in> set (sent_text (signal_emitted st s payload))"
    by (force simp: signal_emitted_fields)
  show "(s, p, rid) \<notin> set (awaiting (signal_emitted st s payload))"
    by (simp add: signal_emitted_fields)
next
  fix msg meth handler r w s
  assume a: "parse data = Inr (VDictionary msg) \<and> map_of msg ''method'' = Some (VString meth) \<and> meth \<noteq> '''' \<and>
      map_of (handlers st) meth = Some handler \<and>
      handler (dict_get msg ''params'' (VDictionary [])) (world st) = (VDictionary r, w) \<and>
      map_of r ''_deferred'' = Some (VSignal s)"
  have c: "handle_message parse render st peer data
          = (None, st\<lparr> world := w,
                        awaiting := awaiting st @ [(s, peer, str render (dict_get msg ''id'' (VString ''0'')))] \<rparr>)"
    using handle_message_call[where parse = parse and data = data and msg = msg and st = st and meth = meth
        and handler = handler and result = "VDictionary r" and w = w and render = render and peer = peer] a
    by simp
  show "handle_message parse render st peer data
          = (None, st\<lparr> world := w,
                        awaiting := awaiting st @ [(s, peer, str render (dict_get msg ''id'' (VString ''0'')))] \<rparr>)"
    by (rule c)
  show "sent_text (snd (handle_message parse render st peer data)) = sent_text st"
    by (simp add: c)
next
  fix msg meth handler result w
  assume a: "parse data = Inr (VDictionary msg) \<and> map_of msg ''method'' = Some (VString meth) \<and> meth \<noteq> '''' \<and>
      map_of (handlers st) meth = Some handler \<and>
      handler (dict_get msg ''params'' (VDictionary [])) (world st) = (result, w) \<and>
      (\<forall>r. result = VDictionary r \<longrightarrow> map_of r ''_deferred'' = None)"
  show "handle_message parse render st peer data
          = (None, st\<lparr> world := w,
                        sent_text := sent_text st @
                          [(peer, VDictionary [(''id'', VString (str render (dict_get msg ''id'' (VString ''0'')))),
                                               (''result'', result)])] \<rparr>)"
    using handle_message_call[where parse = parse and data = data and msg = msg and st = st and meth = meth
        and handler = handler and result = result and w = w and render = render and peer = peer] a
    by (cases result) (simp_all add: send_result_def)
next
  show "\<exists>ext. awaiting (snd (handle_message parse render st peer data)) = awaiting st @ ext"
    using handle_message_effect[of parse render st peer data] by blast
qed (simp_all add: signal_emitted_fields)

text \<open>
  A screenshot is requested by peer 3 and deferred; while it is suspended a ping of peer 4 is
  answered; when \<open>screenshot_ready\<close> fires, the screenshot call answers peer 3 under its id.
\<close>

theorem deferred_dispatch_witness:
  "sent_text (snd (handle_message demo_parse demo_render demo_server 3 ''screenshot'')) = [] \<and>
   awaiting (snd (handle_message demo_parse demo_render demo_server 3 ''screenshot'')) = [(0, 3, ''9'')] \<and>
   sent_text (snd (handle_message demo_parse demo_render
                    (snd (handle_message demo_parse demo_render demo_server 3 ''screenshot'')) 4 ''ping''))
     = [(4, VDictionary [(''id'', VString ''0''),
                         (''result'', VDictionary [(''status'', VString ''ok''),
                                                   (''server'', VString ''mechanical-turk-mcp''),
                                                   (''version'', VString ''0.1.0'')])])] \<and>
   awaiting (snd (handle_message demo_parse demo_render
                    (snd (handle_message demo_parse demo_render demo_server 3 ''screenshot'')) 4 ''ping''))
     = [(0, 3, ''9'')] \<and>
   sent_text (signal_emitted
                (snd (handle_message demo_parse demo_render demo_server 3 ''screenshot'')) 0
                (VDictionary [(''width'', VInt 640)]))
     = [(3, VDictionary [(''id'', VString ''9''), (''result'', VDictionary [(''width'', VInt 640)])])] \<and>
   awaiting (signal_emitted
                (snd (handle_message demo_parse demo_render demo_server 3 ''screenshot'')) 0
                (VDictionary [(''width'', VInt 640)])) = []"
proof -
  let ?shot = "[(''id'', VString ''9''), (''method'', VString ''capture_screenshot'')]"
  let ?ping = "[(''method'', VString ''ping'')]"
  let ?pong = "VDictionary [(''status'', VString ''ok''), (''server'', VString ''mechanical-turk-mcp''),
                            (''version'', VString ''0.1.0'')]"
  define st1 where "st1 = demo_server\<lparr> world := demo_scene, awaiting := awaiting demo_server @ [(0, 3, ''9'')] \<rparr>"
  have h1: "demo_parse ''screenshot'' = Inr (VDictionary ?shot) \<and>
      map_of ?shot ''method'' = Some (VString ''capture_screenshot'') \<and> ''capture_screenshot'' \<noteq> '''' \<and>
      map_of (handlers demo_server) ''capture_screenshot'' = Some (screenshot_handle 0) \<and>
      screenshot_handle 0 (dict_get ?shot ''params'' (VDictionary [])) (world demo_server)
        = (VDictionary [(''_deferred'', VSignal 0)], demo_scene) \<and>
      map_of [(''_deferred'', VSignal 0)] ''_deferred'' = Some (VSignal 0)"
    by (simp add: demo_parse_def demo_handlers screenshot_handle_def demo_server_fields)
  have c1: "handle_message demo_parse demo_render demo_server 3 ''screenshot'' = (None, st1)"
    using deferred_dispatch[of demo_parse "''screenshot''" demo_server demo_render 3,
            THEN conjunct1, rule_format, OF h1, THEN conjunct1]
    by (simp add: st1_def str_def dict_get_def)
  have st1: "handlers st1 = handlers demo_server" "world st1 = demo_scene" "sent_text st1 = []"
    "awaiting st1 = [(0, 3, ''9'')]"
    by (simp_all add: st1_def demo_server_fields)
  have h2: "demo_parse ''ping'' = Inr (VDictionary ?ping) \<and>
      map_of ?ping ''method'' = Some (VString ''ping'') \<and> ''ping'' \<noteq> '''' \<and>
      map_of (handlers st1) ''ping'' = Some handle_ping \<and>
      handle_ping (dict_get ?ping ''params'' (VDictionary [])) (world st1) = (?pong, demo_scene) \<and>
      (\<forall>r. ?pong = VDictionary r \<longrightarrow> map_of r ''_deferred'' = None)"
    by (simp add: demo_parse_def st1 demo_handlers handle_ping_def)
  have c2: "handle_message demo_parse demo_render st1 4 ''ping''
      = (None, st1\<lparr> world := demo_scene,
                     sent_text := sent_text st1 @
                       [(4, VDictionary [(''id'', VString (str demo_render (dict_get ?ping ''id'' (VString ''0'')))),
                                         (''result'', ?pong)])] \<rparr>)"
    using deferred_dispatch[of demo_parse "''ping''" st1 demo_render 4,
            THEN conjunct2, THEN conjunct1, rule_format, OF h2] .
  have c3: "awaiting (signal_emitted st1 0 (VDictionary [(''width'', VInt 640)])) = [] \<and>
      sent_text (signal_emitted st1 0 (VDictionary [(''width'', VInt 640)]))
        = [(3, VDictionary [(''id'', VString ''9''), (''result'', VDictionary [(''width'', VInt 640)])])]"
    using deferred_dispatch[of demo_parse "''ping''" st1 demo_render 4,
            THEN conjunct2, THEN conjunct2, THEN conjunct2, THEN conjunct1, rule_format,
            of 0 "VDictionary [(''width'', VInt 640)]"]
    by (simp add: st1)
  show ?thesis
    unfolding c1 snd_conv c2 using c3 by (simp add: st1 str_def dict_get_def)
qed

section \<open>Properties of the handlers\<close>

lemma set_property_node_not_found:
  assumes "map_of ps ''node_path'' = Some (VString np)" "map_of ps ''property'' = Some (VString pr)"
    "np \<noteq> ''''" "pr \<noteq> ''''" "tree sc" "np \<noteq> ''/root''"
    "get_node_or_null sc (trim_prefix np ''/root'') = None"
  shows "handle_set_property (VDictionary ps) sc = Inr (error_result (''Node not found: '' @ np), sc)"
  using assms by (simp add: handle_set_property_def dict_get_def as_String_def)

lemma input_event_unknown_type:
  assumes "map_of ps ''event_type'' = Some (VString kind)"
    "kind \<noteq> ''key''" "kind \<noteq> ''mouse_button''" "kind \<noteq> ''mouse_motion''"
  shows "handle_input_event inject (VDictionary ps) w = Inr (status_error (''Unknown event_type: '' @ kind), w)"
  using assms by (simp add: handle_input_event_def dict_get_def as_String_def)

lemma not_error_response:
  "\<not> is_error_response (VDictionary [(''id'', VString rid), (''result'', result)])"
  by (simp add: is_error_response_def dict_has_def)

lemma handler_result_frames:
  assumes "parse data = Inr (VDictionary msg)" "map_of msg ''method'' = Some (VString meth)"
    "meth \<noteq> ''''" "map_of (handlers st) meth = Some handler"
    "handler (dict_get msg ''params'' (VDictionary [])) (world st) = (result, w)"
  shows "\<exists>new. sent_text (snd (handle_message parse render st peer data)) = sent_text st @ new \<and>
           (\<forall>f \<in> set new.
              f = (peer, VDictionary [(''id'', VString (str render (dict_get msg ''id'' (VString ''0'')))),
                                      (''result'', result)]))"
proof -
  note c = handle_message_call[where parse = parse and data = data and msg = msg and st = st and meth = meth
        and handler = handler and result = result and w = w and render = render and peer = peer,
        OF assms]
  show ?thesis
  proof (cases "\<exists>r. result = VDictionary r \<and> map_of r ''_deferred'' \<noteq> None")
    case True
    then obtain r d where r: "result = VDictionary r" "map_of r ''_deferred'' = Some d" by auto
    show ?thesis by (cases d) (simp_all add: c r)
  next
    case False
    then have "handle_message parse render st peer data
        = (None, send_result (st\<lparr> world := w \<rparr>) peer (str render (dict_get msg ''id'' (VString ''0''))) result)"
      by (cases result) (auto simp: c)
    then show ?thesis by simp
  qed
qed

text \<open>
  C7 (as amended). Whatever a registered handler returns, a failure it signals included,
  leaves the dispatcher through \<open>_send_result\<close> only: every frame the call sends is
  \<open>{id, result: r}\<close> with the handler's result \<open>r\<close>, to the calling peer, and none is in the
  error shape; a result without the key \<open>_deferred\<close> is sent at once. \<open>handle_set_property\<close>
  reports a node that is not in the tree by returning \<open>{"error": "Node not found: ..."}\<close>
  and leaves the scene as it was; \<open>handle_input_event\<close> reports an event type it does not
  know by returning \<open>{"status": "error", "message": ...}\<close>. The call changes nothing else
  of the server, and the packets after it are handled in turn.
\<close>

theorem handler_failure_is_result:
  "(\<forall>msg meth handler result w.
      parse data = Inr (VDictionary msg) \<and> map_of msg ''method'' = Some (VString meth) \<and> meth \<noteq> '''' \<and>
      map_of (handlers st) meth = Some handler \<and>
      handler (dict_get msg ''params'' (VDictionary [])) (world st) = (result, w) \<longrightarrow>
        (\<exists>new. sent_text (snd (handle_message parse render st peer data)) = sent_text st @ new \<and>
           (\<forall>f \<in> set new.
              f = (peer, VDictionary [(''id'', VString (str render (dict_get msg ''id'' (VString ''0'')))),
                                      (''result'', result)]) \<and>
              \<not> is_error_response (snd f))) \<and>
        ((\<forall>r. result = VDictionary r \<longrightarrow> map_of r ''_deferred'' = None) \<longrightarrow>
           handle_message parse render st peer data
             = (None, st\<lparr> world := w,
                           sent_text := sent_text st @
                             [(peer, VDictionary [(''id'', VString (str render (dict_get msg ''id'' (VString ''0'')))),
                                                  (''result'', result)])] \<rparr>))) \<and>
   (\<forall>ps np pr sc.
      map_of ps ''node_path'' = Some (VString np) \<and> map_of ps ''property'' = Some (VString pr) \<and>
      np \<noteq> '''' \<and> pr \<noteq> '''' \<and> tree sc \<and> np \<noteq> ''/root'' \<and>
      get_node_or_null sc (trim_prefix np ''/root'') = None \<longrightarrow>
        as_handler handle_set_property (VDictionary ps) sc = (error_result (''Node not found: '' @ np), sc)) \<and>
   (\<forall>ps kind inject w.
      map_of ps ''event_type'' = Some (VString kind) \<and>
      kind \<noteq> ''key'' \<and> kind \<noteq> ''mouse_button'' \<and> kind \<noteq> ''mouse_motion'' \<longrightarrow>
        as_handler (handle_input_event inject) (VDictionary ps) w
          = (status_error (''Unknown event_type: '' @ kind), w)) \<and>
   handlers (snd (handle_message parse render st peer data)) = handlers st \<and>
   (\<exists>ext. awaiting (snd (handle_message parse render st peer data)) = awaiting st @ ext) \<and>
   (\<exists>new. sent_text (snd (handle_message parse render st peer data)) = sent_text st @ new \<and>
          (\<forall>f \<in> set new. fst f = peer)) \<and>
   (\<forall>rest. handle_packets parse render st peer (data # rest)
            = handle_packets parse render (snd (handle_message parse render st peer data)) peer rest)"
proof (intro conjI allI impI)
  fix msg meth handler result w
  assume a: "parse data = Inr (VDictionary msg) \<and> map_of msg ''method'' = Some (VString meth) \<and> meth \<noteq> '''' \<and>
      map_of (handlers st) meth = Some handler \<and>
      handler (dict_get msg ''params'' (VDictionary [])) (world st) = (result, w)"
  then obtain new where
    "sent_text (snd (handle_message parse render st peer data)) = sent_text st @ new"
    "\<forall>f \<in> set new.
        f = (peer, VDictionary [(''id'', VString (str render (dict_get msg ''id'' (VString ''0'')))),
                                (''result'', result)])"
    using handler_result_frames[of parse data msg meth st handler result w render peer] by blast
  then show "\<exists>new. sent_text (snd (handle_message parse render st peer data)) = sent_text st @ new \<and>
           (\<forall>f \<in> set new.
              f = (peer, VDictionary [(''id'', VString (str render (dict_get msg ''id'' (VString ''0'')))),
                                      (''result'', result)]) \<and>
              \<not> is_error_response (snd f))"
    using not_error_response by fastforce
  assume "\<forall>r. result = VDictionary r \<longrightarrow> map_of r ''_deferred'' = None"
  then show "handle_message parse render st peer data
             = (None, st\<lparr> world := w,
                           sent_text := sent_text st @
                             [(peer, VDictionary [(''id'', VString (str render (dict_get msg ''id'' (VString ''0'')))),
                                                  (''result'', result)])] \<rparr>)"
    using handle_message_call[where parse = parse and data = data and msg = msg and st = st and meth = meth
        and handler = handler and result = result and w = w and render = render and peer = peer] a
    by (cases result) (simp_all add: send_result_def)
next
  fix ps np pr and sc :: scene
  assume "map_of ps ''node_path'' = Some (VString np) \<and> map_of ps ''property'' = Some (VString pr) \<and>
      np \<noteq> '''' \<and> pr \<noteq> '''' \<and> tree sc \<and> np \<noteq> ''/root'' \<and>
      get_node_or_null sc (trim_prefix np ''/root'') = None"
  then have "handle_set_property (VDictionary ps) sc = Inr (error_result (''Node not found: '' @ np), sc)"
    by (intro set_property_node_not_found) auto
  then show "as_handler handle_set_property (VDictionary ps) sc = (error_result (''Node not found: '' @ np), sc)"
    by (simp add: as_handler_def)
next
  fix ps kind and inject :: "string \<Rightarrow> variant \<Rightarrow> 'c \<Rightarrow> script_error + variant \<times> 'c" and w
  assume "map_of ps ''event_type'' = Some (VString kind) \<and>
      kind \<noteq> ''key'' \<and> kind \<noteq> ''mouse_button'' \<and> kind \<noteq> ''mouse_motion''"
  then have "handle_input_event inject (VDictionary ps) w = Inr (status_error (''Unknown event_type: '' @ kind), w)"
    by (intro input_event_unknown_type) auto
  then show "as_handler (handle_input_event inject) (VDictionary ps) w
          = (status_error (''Unknown event_type: '' @ kind), w)"
    by (simp add: as_handler_def)
next
  show "handlers (snd (handle_message parse render st peer data)) = handlers st"
    using handle_message_effect[of parse render st peer data] by blast
  show "\<exists>ext. awaiting (snd (handle_message parse render st peer data)) = awaiting st @ ext"
    using handle_message_effect[of parse render st peer data] by blast
  show "\<exists>new. sent_text (snd (handle_message parse render st peer data)) = sent_text st @ new \<and>
          (\<forall>f \<in> set new. fst f = peer)"
    using handle_message_effect[of parse render st peer data] by blast
qed simp

lemma demo_missing_node:
  "as_handler handle_set_property
     (VDictionary [(''node_path'', VString ''/root/Missing''), (''property'', VString ''visible''),
                   (''value'', VBool False)]) demo_scene
     = (error_result ''Node not found: /root/Missing'', demo_scene)"
  by (simp add: as_handler_def handle_set_property_def dict_get_def as_String_def demo_scene_def
      trim_prefix_def)

lemma demo_touch:
  "as_handler (handle_input_event inject) (VDictionary [(''event_type'', VString ''touch'')]) w
     = (status_error ''Unknown event_type: touch'', w)"
  by (simp add: as_handler_def handle_input_event_def dict_get_def as_String_def)

lemma int32_640_480: "int32 640 = 640" "int32 480 = 480"
  by code_simp+

lemma demo_set_size:
  "as_handler handle_set_property
     (VDictionary [(''node_path'', VString ''/root''), (''property'', VString ''size''),
                   (''value'', VDictionary [(''_type'', VString ''Vector2i''),
                                            (''x'', VFloat 640), (''y'', VFloat 480)])]) demo_scene
     = (VDictionary [(''status'', VString ''ok''), (''node'', VString ''/root''),
                     (''property'', VString ''size'')],
        demo_scene\<lparr> assigned := (assigned demo_scene)(0 := [(''size'', VVector2i 640 480)]) \<rparr>)"
  by (simp add: as_handler_def handle_set_property_def dict_get_def as_String_def demo_scene_def
      live_convert_dict typed_Vector2i_def Vector2i_def int_of_def towards_zero_def received_def
      int32_640_480)

text \<open>
  Setting a property of a node that is not in the tree is answered with a result frame that
  holds the message, and so is an input event of a kind the input handler does not know;
  the next packet, which sets the size of the root, is handled and answered.
\<close>

theorem handler_failure_is_result_witness:
  "sent_text (handle_packets demo_parse demo_render demo_server 3 [''missing node'', ''touch'', ''set''])
     = [(3, VDictionary [(''id'', VString ''7''),
                         (''result'', VDictionary [(''error'', VString ''Node not found: /root/Missing'')])]),
        (3, VDictionary [(''id'', VString ''10''),
                         (''result'', VDictionary [(''status'', VString ''error''),
                                                   (''message'', VString ''Unknown event_type: touch'')])]),
        (3, VDictionary [(''id'', VString ''8''),
                         (''result'', VDictionary [(''status'', VString ''ok''), (''node'', VString ''/root''),
                                                   (''property'', VString ''size'')])])] \<and>
   assigned (world (handle_packets demo_parse demo_render demo_server 3 [''missing node'', ''touch'', ''set''])) 0
     = [(''size'', VVector2i 640 480)]"
proof -
  let ?miss = "[(''id'', VString ''7''), (''method'', VString ''set_node_property''),
                (''params'', VDictionary [(''node_path'', VString ''/root/Missing''),
                                          (''property'', VString ''visible''), (''value'', VBool False)])]"
  let ?touch = "[(''id'', VString ''10''), (''method'', VString ''send_input_event''),
                 (''params'', VDictionary [(''event_type'', VString ''touch'')])]"
  let ?set = "[(''id'', VString ''8''), (''method'', VString ''set_node_property''),
               (''params'', VDictionary [(''node_path'', VString ''/root''),
                                         (''property'', VString ''size''),
                                         (''value'', VDictionary [(''_type'', VString ''Vector2i''),
                                                                  (''x'', VFloat 640), (''y'', VFloat 480)])])]"
  let ?inject = "\<lambda>kind params w. Inr (VDictionary [(''status'', VString ''ok'')], w)
                   :: script_error + variant \<times> scene"
  let ?f1 = "(3, VDictionary [(''id'', VString ''7''),
                         (''result'', VDictionary [(''error'', VString ''Node not found: /root/Missing'')])])"
  let ?f2 = "(3, VDictionary [(''id'', VString ''10''),
                         (''result'', VDictionary [(''status'', VString ''error''),
                                                   (''message'', VString ''Unknown event_type: touch'')])])"
  define st1 where "st1 = demo_server\<lparr> world := demo_scene, sent_text := sent_text demo_server @ [?f1] \<rparr>"
  define st2 where "st2 = st1\<lparr> world := demo_scene, sent_text := sent_text st1 @ [?f2] \<rparr>"
  have h1: "demo_parse ''missing node'' = Inr (VDictionary ?miss) \<and>
      map_of ?miss ''method'' = Some (VString ''set_node_property'') \<and> ''set_node_property'' \<noteq> '''' \<and>
      map_of (handlers demo_server) ''set_node_property'' = Some (as_handler handle_set_property) \<and>
      as_handler handle_set_property (dict_get ?miss ''params'' (VDictionary [])) (world demo_server)
        = (error_result ''Node not found: /root/Missing'', demo_scene)"
    by (simp add: demo_parse_def demo_handlers demo_server_fields dict_get_def demo_missing_node)
  have n1: "\<forall>r. error_result ''Node not found: /root/Missing'' = VDictionary r \<longrightarrow> map_of r ''_deferred'' = None"
    by (simp add: error_result_def)
  have c1: "handle_message demo_parse demo_render demo_server 3 ''missing node'' = (None, st1)"
    using handler_failure_is_result[of demo_parse "''missing node''" demo_server demo_render 3,
            THEN conjunct1, rule_format, OF h1, THEN conjunct2, THEN mp, OF n1]
    by (simp add: st1_def str_def dict_get_def error_result_def)
  have st1: "handlers st1 = handlers demo_server" "world st1 = demo_scene" "awaiting st1 = []"
    "sent_text st1 = [?f1]"
    by (simp_all add: st1_def demo_server_fields)
  have h2: "demo_parse ''touch'' = Inr (VDictionary ?touch) \<and>
      map_of ?touch ''method'' = Some (VString ''send_input_event'') \<and> ''send_input_event'' \<noteq> '''' \<and>
      map_of (handlers st1) ''send_input_event'' = Some (as_handler (handle_input_event ?inject)) \<and>
      as_handler (handle_input_event ?inject) (dict_get ?touch ''params'' (VDictionary [])) (world st1)
        = (status_error ''Unknown event_type: touch'', demo_scene)"
    by (simp add: demo_parse_def st1 demo_handlers dict_get_def demo_touch)
  have n2: "\<forall>r. status_error ''Unknown event_type: touch'' = VDictionary r \<longrightarrow> map_of r ''_deferred'' = None"
    by (simp add: status_error_def)
  have c2: "handle_message demo_parse demo_render st1 3 ''touch'' = (None, st2)"
    using handler_failure_is_result[of demo_parse "''touch''" st1 demo_render 3,
            THEN conjunct1, rule_format, OF h2, THEN conjunct2, THEN mp, OF n2]
    by (simp add: st2_def str_def dict_get_def status_error_def)
  have st2: "handlers st2 = handlers demo_server" "world st2 = demo_scene" "awaiting st2 = []"
    "sent_text st2 = [?f1, ?f2]"
    by (simp_all add: st2_def st1)
  have loop: "handle_packets demo_parse demo_render demo_server 3 [''missing node'', ''touch'', ''set'']
      = handle_packets demo_parse demo_render st2 3 [''set'']"
    using handler_failure_is_result[of demo_parse "''missing node''" demo_server demo_render 3,
            THEN conjunct2, THEN conjunct2, THEN conjunct2, THEN conjunct2, THEN conjunct2, THEN conjunct2,
            rule_format, of "[''touch'', ''set'']"]
    by (simp add: c1 c2)
  have p3: "demo_parse ''set'' = Inr (VDictionary ?set)" by (simp add: demo_parse_def)
  have c3: "handle_message demo_parse demo_render st2 3 ''set''
      = (None, send_result (st2\<lparr> world := demo_scene\<lparr> assigned := (assigned demo_scene)(0 := [(''size'', VVector2i 640 480)]) \<rparr> \<rparr>)
                 3 (str demo_render (dict_get ?set ''id'' (VString ''0'')))
                 (VDictionary [(''status'', VString ''ok''), (''node'', VString ''/root''),
                               (''property'', VString ''size'')]))"
    using handle_message_call[where parse = demo_parse and data = "''set''" and msg = ?set and st = st2
        and meth = "''set_node_property''" and handler = "as_handler handle_set_property"
        and render = demo_render and peer = 3, OF p3]
    by (simp add: st2 demo_handlers dict_get_def demo_set_size)
  show ?thesis
    unfolding loop by (simp add: c3 st2 str_def dict_get_def)
qed

text \<open>
  The answer to the failed call is not in the error shape: it has no \<open>error\<close> member and no
  code, the message sits inside \<open>result\<close>.
\<close>

theorem handler_failure_is_result_counterexample:
  "sent_text (snd (handle_message demo_parse demo_render demo_server 3 ''missing node''))
     = [(3, VDictionary [(''id'', VString ''7''),
                         (''result'', VDictionary [(''error'', VString ''Node not found: /root/Missing'')])])] \<and>
   \<not> is_error_response
        (VDictionary [(''id'', VString ''7''),
                      (''result'', VDictionary [(''error'', VString ''Node not found: /root/Missing'')])])"
proof -
  let ?miss = "[(''id'', VString ''7''), (''method'', VString ''set_node_property''),
                (''params'', VDictionary [(''node_path'', VString ''/root/Missing''),
                                          (''property'', VString ''visible''), (''value'', VBool False)])]"
  have p: "demo_parse ''missing node'' = Inr (VDictionary ?miss)" by (simp add: demo_parse_def)
  have "handle_message demo_parse demo_render demo_server 3 ''missing node''
      = (None, send_result (demo_server\<lparr> world := demo_scene \<rparr>) 3 (str demo_render (dict_get ?miss ''id'' (VString ''0'')))
                 (error_result ''Node not found: /root/Missing''))"
    using handle_message_call[where parse = demo_parse and data = "''missing node''" and msg = ?miss
        and st = demo_server and meth = "''set_node_property''" and handler = "as_handler handle_set_property"
        and render = demo_render and peer = 3, OF p]
    by (simp add: demo_handlers demo_server_fields dict_get_def demo_missing_node error_result_def)
  then show ?thesis
    by (simp add: demo_server_fields str_def dict_get_def error_result_def not_error_response)
qed

end
